theory Spec2Isabelle
  imports Complex_Main
begin

section \<open>Values shared by the reporting scripts\<close>

text \<open>
  The exceptions the scripts can raise. Exceptions raised by a parser that is handed in
  as a parameter (\<open>json.load\<close>, \<open>pandas.read_csv\<close>) are whatever that parser
  returns.
\<close>

datatype error =
    IndexError
  | KeyError
  | TypeError
  | ValueError
  | UnboundLocalError
  | FileNotFoundError
  | JSONDecodeError
  | ParserError
  | OtherError string

text \<open>
  Floating-point numbers are idealised: a finite float is a real number and arithmetic on
  finite floats is exact. \<open>NonFinite\<close> stands for the values \<open>nan\<close>, \<open>inf\<close> and
  \<open>-inf\<close> that numpy returns (with a warning, without raising) for the mean of an empty
  array or a division by zero. The scripts apply only addition, subtraction,
  multiplication, division, mean, standard deviation and rounding to such a value, and each
  of these returns a non-finite value again, so the three are not told apart.
\<close>

datatype npfloat = Fin real | NonFinite

fun is_fin :: "npfloat \<Rightarrow> bool" where
  "is_fin (Fin _) = True"
| "is_fin NonFinite = False"

fun the_fin :: "npfloat \<Rightarrow> real" where
  "the_fin (Fin x) = x"
| "the_fin NonFinite = 0"

fun np_add :: "npfloat \<Rightarrow> npfloat \<Rightarrow> npfloat" where
  "np_add (Fin a) (Fin b) = Fin (a + b)"
| "np_add _ _ = NonFinite"

fun np_sub :: "npfloat \<Rightarrow> npfloat \<Rightarrow> npfloat" where
  "np_sub (Fin a) (Fin b) = Fin (a - b)"
| "np_sub _ _ = NonFinite"

fun np_mul :: "npfloat \<Rightarrow> npfloat \<Rightarrow> npfloat" where
  "np_mul (Fin a) (Fin b) = Fin (a * b)"
| "np_mul _ _ = NonFinite"

fun np_div :: "npfloat \<Rightarrow> npfloat \<Rightarrow> npfloat" where
  "np_div (Fin a) (Fin b) = (if b = 0 then NonFinite else Fin (a / b))"
| "np_div _ _ = NonFinite"

text \<open>\<open>numpy.mean\<close>: the sum over the number of elements; \<open>nan\<close> for an empty array.\<close>

definition np_mean :: "npfloat list \<Rightarrow> npfloat" where
  "np_mean xs =
     (if xs = [] \<or> \<not> list_all is_fin xs then NonFinite
      else Fin (sum_list (map the_fin xs) / real (length xs)))"

text \<open>
  \<open>numpy.std\<close> with its default \<open>ddof = 0\<close>: the square root of the mean of the
  squared deviations from the mean (the population standard deviation).
\<close>

definition np_std :: "npfloat list \<Rightarrow> npfloat" where
  "np_std xs =
     (if xs = [] \<or> \<not> list_all is_fin xs then NonFinite
      else (let n = real (length xs);
                m = sum_list (map the_fin xs) / n
            in Fin (sqrt (sum_list (map (\<lambda>x. (the_fin x - m)\<^sup>2) xs) / n))))"

text \<open>
  \<open>round(x, ndigits)\<close>: scale by a power of ten, round to the nearest integer with ties
  going to the even one, scale back.
\<close>

definition round_half_even :: "real \<Rightarrow> int" where
  "round_half_even y =
     (let f = \<lfloor>y\<rfloor>; d = y - of_int f
      in if d < 1 / 2 then f
         else if 1 / 2 < d then f + 1
         else if even f then f else f + 1)"

fun py_round :: "npfloat \<Rightarrow> nat \<Rightarrow> npfloat" where
  "py_round (Fin x) ndigits = Fin (of_int (round_half_even (x * 10 ^ ndigits)) / 10 ^ ndigits)"
| "py_round NonFinite ndigits = NonFinite"

text \<open>
  A Python \<open>dict\<close> keeps its keys in insertion order: an association list with distinct
  keys. Assigning to a key replaces the value in place or appends a new entry.
\<close>

fun dict_set :: "'k \<Rightarrow> 'v \<Rightarrow> ('k \<times> 'v) list \<Rightarrow> ('k \<times> 'v) list" where
  "dict_set k v [] = [(k, v)]"
| "dict_set k v ((k', v') # rest) =
     (if k' = k then (k, v) # rest else (k', v') # dict_set k v rest)"

definition is_dict :: "('k \<times> 'v) list \<Rightarrow> bool" where
  "is_dict d = distinct (map fst d)"

text \<open>\<open>os.path.join\<close> of two components (POSIX).\<close>

definition os_path_join :: "string \<Rightarrow> string \<Rightarrow> string" where
  "os_path_join a b =
     (if b \<noteq> [] \<and> hd b = CHR ''/'' then b
      else if a = [] \<or> last a = CHR ''/'' then a @ b
      else a @ ''/'' @ b)"

section \<open>The training history (make\_train\_histograms.py)\<close>

text \<open>
  One run of the history JSON. Keys the script reads unconditionally are fields; keys it
  tests with \<open>in\<close> before reading are optional. The initial weights are compared against
  bounds, so they are finite.
\<close>

record agent_stats =
  pf_value :: npfloat
  mdd :: npfloat
  sharpe_ratio :: npfloat

record run =
  initial_weights :: "real list"
  dynamic :: agent_stats
  static :: agent_stats
  eq_weight :: agent_stats
  asset_list :: "string list"
  test_start :: "string option"
  test_end :: "string option"
  trading_period_length :: "string option"

type_synonym history = "(string \<times> run) list"

subsection \<open>filter\_history\_dict\<close>

fun filter_history_loop :: "history \<Rightarrow> history \<Rightarrow> history" where
  "filter_history_loop filtered_history [] = filtered_history"
| "filter_history_loop filtered_history ((timestamp, train_data) # rest) =
     (if list_ex (\<lambda>value. value < 0) (initial_weights train_data)
        then filter_history_loop filtered_history rest
      else if list_ex (\<lambda>value. value > 7 / 10) (initial_weights train_data)
        then filter_history_loop filtered_history rest
      else filter_history_loop (dict_set timestamp train_data filtered_history) rest)"

definition filter_history_dict :: "history \<Rightarrow> history" where
  "filter_history_dict history_dict = filter_history_loop [] history_dict"

text \<open>
  The bound of the specification: no weight strictly below 0 and none strictly above 0.7
  (the real number 7/10, here and in the loop above).
\<close>

definition weights_within_bounds :: "run \<Rightarrow> bool" where
  "weights_within_bounds r =
     (\<forall>w \<in> set (initial_weights r). \<not> w < 0 \<and> \<not> w > 7 / 10)"

subsection \<open>aggregate\_backtest\_stats\<close>

text \<open>
  The dictionary the aggregation returns. The four keys that share a name with a key of a
  run carry the prefix \<open>agg_\<close>.
\<close>

record backtest_stats =
  dynamic_pf_values :: "npfloat list"
  dynamic_mdds :: "npfloat list"
  dynamic_sharpe_ratios :: "npfloat list"
  static_pf_values :: "npfloat list"
  static_mdds :: "npfloat list"
  static_sharpe_ratios :: "npfloat list"
  cash_investments :: "npfloat list"
  crypto_weight_averages :: "npfloat list"
  crypto_weight_std_devs :: "npfloat list"
  first_key :: string
  agg_asset_list :: "string list"
  eq_pf_value :: npfloat
  eq_sharpe_ratio :: npfloat
  eq_mdd :: npfloat
  agg_test_start :: string
  agg_test_end :: string
  agg_trading_period_length :: string

text \<open>
  The body of the \<open>for\<close> loop over the items. \<open>initial_weights[0]\<close> raises IndexError
  on an empty list; \<open>initial_weights[1:]\<close> is the tail.
\<close>

fun aggregate_loop :: "backtest_stats \<Rightarrow> history \<Rightarrow> error + backtest_stats" where
  "aggregate_loop acc [] = Inr acc"
| "aggregate_loop acc ((timestamp, session_stats) # rest) =
     (case initial_weights session_stats of
        [] \<Rightarrow> Inl IndexError
      | cash # crypto_weights \<Rightarrow>
          aggregate_loop
            (acc\<lparr>agg_test_start :=
                   (case test_start session_stats of
                      Some v \<Rightarrow> v | None \<Rightarrow> agg_test_start acc),
                 agg_test_end :=
                   (case test_end session_stats of
                      Some v \<Rightarrow> v | None \<Rightarrow> agg_test_end acc),
                 agg_trading_period_length :=
                   (case trading_period_length session_stats of
                      Some v \<Rightarrow> v | None \<Rightarrow> agg_trading_period_length acc),
                 dynamic_pf_values :=
                   dynamic_pf_values acc @ [pf_value (dynamic session_stats)],
                 dynamic_mdds := dynamic_mdds acc @ [mdd (dynamic session_stats)],
                 dynamic_sharpe_ratios :=
                   dynamic_sharpe_ratios acc @ [sharpe_ratio (dynamic session_stats)],
                 static_pf_values :=
                   static_pf_values acc @ [pf_value (static session_stats)],
                 static_mdds := static_mdds acc @ [mdd (static session_stats)],
                 static_sharpe_ratios :=
                   static_sharpe_ratios acc @ [sharpe_ratio (static session_stats)],
                 cash_investments := cash_investments acc @ [Fin cash],
                 crypto_weight_averages :=
                   crypto_weight_averages acc @ [np_mean (map Fin crypto_weights)],
                 crypto_weight_std_devs :=
                   crypto_weight_std_devs acc @ [np_std (map Fin crypto_weights)]\<rparr>)
            rest)"

text \<open>
  \<open>list(filtered_history.keys())[0]\<close> raises IndexError on an empty dictionary; the
  value under the first key is the first entry's.
\<close>

definition aggregate_backtest_stats :: "history \<Rightarrow> error + backtest_stats" where
  "aggregate_backtest_stats filtered_history =
     (case filtered_history of
        [] \<Rightarrow> Inl IndexError
      | (first_key', first_run) # _ \<Rightarrow>
          aggregate_loop
            \<lparr>dynamic_pf_values = [], dynamic_mdds = [], dynamic_sharpe_ratios = [],
             static_pf_values = [], static_mdds = [], static_sharpe_ratios = [],
             cash_investments = [], crypto_weight_averages = [],
             crypto_weight_std_devs = [],
             first_key = first_key',
             agg_asset_list = asset_list first_run,
             eq_pf_value = pf_value (eq_weight first_run),
             eq_sharpe_ratio = sharpe_ratio (eq_weight first_run),
             eq_mdd = mdd (eq_weight first_run),
             agg_test_start = ''NA'', agg_test_end = ''NA'',
             agg_trading_period_length = ''NA''\<rparr>
            filtered_history)"

subsection \<open>The statistics tables\<close>

datatype cell = CStr string | CNum npfloat | CInt int | CNone

record metadata_table =
  title :: string
  dynamic_columns :: "string list"
  dynamic_data :: "cell list list"
  static_columns :: "string list"
  static_data :: "cell list list"
  eq_columns :: "string list"
  eq_data :: "cell list list"
  crypto_columns :: "string list"
  crypto_table_data :: "cell list list"

definition str_replace :: "char \<Rightarrow> char \<Rightarrow> string \<Rightarrow> string" where
  "str_replace old new s = map (\<lambda>c. if c = old then new else c) s"

text \<open>The cell texts of the four tables; the drawing on the axis is not modelled.\<close>

definition plot_histogram_metadata_table ::
  "nat \<Rightarrow> string \<Rightarrow> backtest_stats \<Rightarrow> metadata_table" where
  "plot_histogram_metadata_table n_simulations session_name backtest_stats =
     \<lparr>title = ''[Simulation statistics] '' @ str_replace CHR ''_'' CHR '' '' session_name,
      dynamic_columns = [''Dynamic agent'', ''Average'', ''Stdev''],
      dynamic_data =
        [[CStr ''Ptf. value'',
          CNum (py_round (np_mean (dynamic_pf_values backtest_stats)) 4),
          CNum (py_round (np_std (dynamic_pf_values backtest_stats)) 4)],
         [CStr ''Sharpe ratio'',
          CNum (py_round (np_mean (dynamic_sharpe_ratios backtest_stats)) 4),
          CNum (py_round (np_std (dynamic_sharpe_ratios backtest_stats)) 4)],
         [CStr ''MDD'',
          CNum (py_round (np_mean (dynamic_mdds backtest_stats)) 4),
          CNum (py_round (np_std (dynamic_mdds backtest_stats)) 4)],
         [CStr ''Average of weights'',
          CNum (py_round (np_mean (crypto_weight_averages backtest_stats)) 4),
          CNum (py_round (np_std (crypto_weight_averages backtest_stats)) 4)],
         [CStr ''Stdev of weights'',
          CNum (py_round (np_mean (crypto_weight_std_devs backtest_stats)) 4),
          CNum (py_round (np_std (crypto_weight_std_devs backtest_stats)) 4)],
         [CStr ''Cash weight (BTC)'',
          CNum (py_round (np_mean (cash_investments backtest_stats)) 4),
          CNum (py_round (np_std (cash_investments backtest_stats)) 4)]],
      static_columns = [''Static agent'', ''Average'', ''Stdev''],
      static_data =
        [[CStr ''Ptf. value'',
          CNum (py_round (np_mean (static_pf_values backtest_stats)) 4),
          CNum (py_round (np_std (static_pf_values backtest_stats)) 4)],
         [CStr ''Sharpe ratio'',
          CNum (py_round (np_mean (static_sharpe_ratios backtest_stats)) 4),
          CNum (py_round (np_std (static_sharpe_ratios backtest_stats)) 4)],
         [CStr ''MDD'',
          CNum (py_round (np_mean (static_mdds backtest_stats)) 4),
          CNum (py_round (np_std (static_mdds backtest_stats)) 4)],
         [CStr ''Average of weights'',
          CNum (py_round (np_mean (crypto_weight_averages backtest_stats)) 4),
          CNum (py_round (np_std (crypto_weight_averages backtest_stats)) 4)],
         [CStr ''Stdev of weights'',
          CNum (py_round (np_mean (crypto_weight_std_devs backtest_stats)) 4),
          CNum (py_round (np_std (crypto_weight_std_devs backtest_stats)) 4)],
         [CStr ''Cash weight (BTC)'',
          CNum (py_round (np_mean (cash_investments backtest_stats)) 4),
          CNum (py_round (np_std (cash_investments backtest_stats)) 4)]],
      eq_columns = [''Equal weighted'', ''Average''],
      eq_data =
        [[CStr ''Ptf. value'', CNum (py_round (eq_pf_value backtest_stats) 4)],
         [CStr ''Sharpe ratio'', CNum (py_round (eq_sharpe_ratio backtest_stats) 4)],
         [CStr ''MDD'', CNum (py_round (eq_mdd backtest_stats) 4)]],
      crypto_columns = [''Parameter'', ''Value''],
      crypto_table_data =
        [[CStr ''No. of simulations'', CInt (int n_simulations)],
         [CStr ''No. of assets'', CInt (int (length (agg_asset_list backtest_stats)))],
         [CStr ''Start date'', CStr (agg_test_start backtest_stats)],
         [CStr ''End date'', CStr (agg_test_end backtest_stats)],
         [CStr ''Trading period'', CStr (agg_trading_period_length backtest_stats)]]\<rparr>"

record histogram =
  hist_data :: "npfloat list"
  hist_title :: string
  hist_xlabel :: string

definition plot_histogram :: "npfloat list \<Rightarrow> string \<Rightarrow> string \<Rightarrow> histogram" where
  "plot_histogram data' title' xlabel =
     \<lparr>hist_data = data', hist_title = title', hist_xlabel = xlabel\<rparr>"

record histogram_figure =
  table :: metadata_table
  histograms :: "histogram list"

section \<open>The training results (plot\_train\_results.py)\<close>

text \<open>
  The keyword arguments of a training session. Keys that are read unconditionally are
  fields, keys tested with \<open>in\<close> are optional; the prefix \<open>cfg_\<close> keeps them apart
  from the keys of a run. Keys that no modelled function reads are left out.
\<close>

record train_configs =
  cfg_start_date :: string
  cfg_end_date :: string
  cfg_trading_period_length :: string
  cfg_portfolio_value :: real
  cfg_window_length :: int
  cfg_no_of_assets :: int
  cfg_n_batches :: int
  cfg_n_episodes :: int
  cfg_batch_size :: int
  cfg_plot_results :: bool
  cfg_train_session_name :: "string option"
  cfg_test_mode :: "bool option"

record train_test_val_steps =
  train :: int
  test :: int
  validation :: int

record sharpe_ratios_dict =
  sr_p_list :: npfloat
  sr_p_list_eq :: npfloat

record test_performance_lists =
  p_list :: "npfloat list"
  p_list_eq :: "npfloat list"
  w_list :: "npfloat list list"
  sharpe_ratios :: sharpe_ratios_dict

record train_performance_lists =
  policy_network :: "npfloat list"
  equal_weighted :: "npfloat list"

text \<open>
  The rows of the price file: the \<open>date\<close> column (seconds) and the \<open>close\<close> column,
  without missing cells. A series is its index with its values.
\<close>

type_synonym csv_rows = "(int \<times> real) list"

type_synonym series = "(int \<times> npfloat) list"

record train_results_figure =
  portfolio_value_progress :: "(string \<times> series) list"
  sharpe_table :: "string list \<times> cell list list"
  weight_evolution :: "(string \<times> series) list"
  train_params :: "string \<times> real \<times> train_configs"

datatype figure = HistogramFigure histogram_figure | TrainResultsFigure train_results_figure

text \<open>
  The part of the outside world the scripts touch: the text files they read (every path
  they read ends in \<open>.json\<close> or \<open>.csv\<close>), the PNG files they write (every path they
  write ends in \<open>.png\<close>), and the formatted time \<open>datetime.now()\<close> gives.
\<close>

record world =
  input_files :: "string \<rightharpoonup> string"
  png_files :: "string \<rightharpoonup> figure"
  clock :: string

definition savefig :: "world \<Rightarrow> string \<Rightarrow> figure \<Rightarrow> world" where
  "savefig w path' fig = w\<lparr>png_files := (png_files w)(path' \<mapsto> fig)\<rparr>"

definition DATA_DIR :: string where "DATA_DIR = ''crypto_data/''"

definition OUTPUT_DIR :: string where "OUTPUT_DIR = ''train_graphs/''"

definition CASH_NAME :: string where "CASH_NAME = ''BTC''"

definition JSON_OUTPUT_DIR :: string where "JSON_OUTPUT_DIR = ''train_jsons/''"

definition HISTOGRAM_OUTPUT_DIR :: string where "HISTOGRAM_OUTPUT_DIR = ''train_histograms/''"

subsection \<open>Library calls\<close>

text \<open>\<open>xs[-1]\<close>.\<close>

definition py_last :: "'a list \<Rightarrow> error + 'a" where
  "py_last xs = (case xs of [] \<Rightarrow> Inl IndexError | _ \<Rightarrow> Inr (last xs))"

text \<open>\<open>xs[i:]\<close>: a negative start counts from the end.\<close>

definition py_slice_from :: "'a list \<Rightarrow> int \<Rightarrow> 'a list" where
  "py_slice_from xs i =
     (if i < 0 then drop (nat (int (length xs) + i)) xs else drop (nat i) xs)"

text \<open>\<open>int(x)\<close> of a float truncates towards zero.\<close>

definition py_int :: "real \<Rightarrow> int" where
  "py_int x = (if 0 \<le> x then \<lfloor>x\<rfloor> else \<lceil>x\<rceil>)"

text \<open>\<open>pandas.Series(data, index)\<close> of two lists raises when their lengths differ.\<close>

definition pd_Series :: "'a list \<Rightarrow> 'i list \<Rightarrow> error + ('i \<times> 'a) list" where
  "pd_Series data' index = (if length data' \<noteq> length index then Inl ValueError
                            else Inr (zip index data'))"

text \<open>
  \<open>Series.pct_change()\<close>: the first element has no predecessor and is \<open>nan\<close>; each
  later one is the quotient by its predecessor, minus one.
\<close>

fun pct_change_from :: "real \<Rightarrow> real list \<Rightarrow> npfloat list" where
  "pct_change_from prev [] = []"
| "pct_change_from prev (c # cs) =
     np_sub (np_div (Fin c) (Fin prev)) (Fin 1) # pct_change_from c cs"

definition pct_change :: "real list \<Rightarrow> npfloat list" where
  "pct_change cs = (case cs of [] \<Rightarrow> [] | c # rest \<Rightarrow> NonFinite # pct_change_from c rest)"

text \<open>
  \<open>numpy.array(w_list)[1:, j]\<close>: column \<open>j\<close> of all rows but the first; an array that
  is not two-dimensional, or has no column \<open>j\<close>, raises IndexError.
\<close>

definition np_column_from1 :: "npfloat list list \<Rightarrow> nat \<Rightarrow> error + npfloat list" where
  "np_column_from1 rows j =
     (if rows = [] \<or> list_ex (\<lambda>r. length r \<noteq> length (hd rows)) rows then Inl IndexError
      else if j < length (hd rows) then Inr (map (\<lambda>r. r ! j) (tl rows))
      else Inl IndexError)"

text \<open>
  \<open>pandas.read_csv(path)\<close>: a missing file raises FileNotFoundError, otherwise the
  result is the parser's, which is a parameter.
\<close>

definition read_csv ::
  "(string \<Rightarrow> error + csv_rows) \<Rightarrow> world \<Rightarrow> string \<Rightarrow> error + csv_rows" where
  "read_csv parse_csv w path' =
     (case input_files w path' of None \<Rightarrow> Inl FileNotFoundError | Some txt \<Rightarrow> parse_csv txt)"

text \<open>\<open>open(path, "r")\<close> followed by reading the file.\<close>

definition open_read :: "world \<Rightarrow> string \<Rightarrow> error + string" where
  "open_read w path' =
     (case input_files w path' of None \<Rightarrow> Inl FileNotFoundError | Some txt \<Rightarrow> Inr txt)"

subsection \<open>\_get\_btc\_price\_data\_for\_period\<close>

definition btc_price_fp :: "train_configs \<Rightarrow> string" where
  "btc_price_fp t_confs =
     (let btc_price_fn =
            ''USDT_BTC_'' @ cfg_start_date t_confs @ ''-'' @ cfg_end_date t_confs @ ''_''
              @ cfg_trading_period_length t_confs @ ''.csv''
      in os_path_join
           (os_path_join (os_path_join DATA_DIR ''USDT_BTC'')
              (cfg_start_date t_confs @ ''-'' @ cfg_end_date t_confs))
           btc_price_fn)"

text \<open>
  The \<open>for idx in range(1, len(btc_data_price_diffs))\<close> loop. The output series is
  keyed by the integer labels \<open>0, 1, \<dots>\<close>; a missing label raises KeyError and a
  position beyond the differences raises IndexError.
\<close>

fun btc_loop ::
  "npfloat list \<Rightarrow> (nat \<times> npfloat) list \<Rightarrow> nat list \<Rightarrow> error + (nat \<times> npfloat) list" where
  "btc_loop btc_data_price_diffs btc_price_data [] = Inr btc_price_data"
| "btc_loop btc_data_price_diffs btc_price_data (idx # rest) =
     (case map_of btc_price_data (idx - 1) of
        None \<Rightarrow> Inl KeyError
      | Some prev_pf_value \<Rightarrow>
          if idx < length btc_data_price_diffs then
            (let current_price_diff = btc_data_price_diffs ! idx;
                 changed_btc_pf_value =
                   np_mul prev_pf_value (np_add current_price_diff (Fin 1))
             in btc_loop btc_data_price_diffs
                  (dict_set idx changed_btc_pf_value btc_price_data) rest)
          else Inl IndexError)"

text \<open>
  After the loop \<open>idx\<close> is the last value the loop gave it; a loop that never ran leaves
  it unbound, and reading it raises UnboundLocalError. Assigning the index of the test
  period to the series raises ValueError when the lengths differ.
\<close>

definition get_btc_price_data_for_period ::
  "(string \<Rightarrow> error + csv_rows) \<Rightarrow> world \<Rightarrow> train_configs \<Rightarrow> train_test_val_steps
     \<Rightarrow> error + (series \<times> npfloat)" where
  "get_btc_price_data_for_period parse_csv w t_confs train_test_val_steps =
     (case read_csv parse_csv w (btc_price_fp t_confs) of
        Inl e \<Rightarrow> Inl e
      | Inr rows \<Rightarrow>
          (let data' = map (\<lambda>(date, close). (date + 7200, close)) rows;
               btc_data_test_period =
                 py_slice_from data'
                   (train train_test_val_steps + validation train_test_val_steps);
               btc_data_price_diffs = pct_change (map snd btc_data_test_period)
           in case btc_loop btc_data_price_diffs [(0, Fin (cfg_portfolio_value t_confs))]
                     [1 ..< length btc_data_price_diffs] of
                Inl e \<Rightarrow> Inl e
              | Inr btc_price_data \<Rightarrow>
                  if length btc_data_price_diffs \<le> 1 then Inl UnboundLocalError
                  else
                    (case map_of btc_price_data (length btc_data_price_diffs - 1) of
                       None \<Rightarrow> Inl KeyError
                     | Some last_value \<Rightarrow>
                        (case map_of btc_price_data 0 of
                           None \<Rightarrow> Inl KeyError
                         | Some first_value \<Rightarrow>
                            (let btc_price_sharpe =
                                   np_div (np_sub last_value first_value)
                                     (np_std (map snd btc_price_data))
                             in if length btc_price_data \<noteq> length btc_data_test_period
                                then Inl ValueError
                                else Inr (zip (map fst btc_data_test_period)
                                            (map snd btc_price_data),
                                          btc_price_sharpe))))))"

subsection \<open>The panels of the figure\<close>

definition plot_portfolio_value_progress_test ::
  "test_performance_lists \<Rightarrow> series \<Rightarrow> error + (string \<times> series) list" where
  "plot_portfolio_value_progress_test test_performance_lists btc_price_data =
     (case pd_Series (p_list test_performance_lists) (map fst btc_price_data) of
        Inl e \<Rightarrow> Inl e
      | Inr p_list_series \<Rightarrow>
          (case pd_Series (p_list_eq test_performance_lists) (map fst btc_price_data) of
             Inl e \<Rightarrow> Inl e
           | Inr p_list_eq_series \<Rightarrow>
               Inr [(''Agent'', p_list_series),
                    (''Equally weighted'', p_list_eq_series),
                    (''BTC only'', btc_price_data)]))"

definition plot_sharpe_table ::
  "test_performance_lists \<Rightarrow> npfloat \<Rightarrow> series \<Rightarrow> error + (string list \<times> cell list list)" where
  "plot_sharpe_table test_performance_lists btc_price_sharpe btc_price_data =
     (case py_last (p_list test_performance_lists) of
        Inl e \<Rightarrow> Inl e
      | Inr p_last \<Rightarrow>
          (case py_last (p_list_eq test_performance_lists) of
             Inl e \<Rightarrow> Inl e
           | Inr p_eq_last \<Rightarrow>
               (case py_last (map snd btc_price_data) of
                  Inl e \<Rightarrow> Inl e
                | Inr btc_last \<Rightarrow>
                    Inr ([''Strategy'', ''MDD'', ''fAPV'', ''Sharpe''],
                         [[CStr ''DRL'', CNone, CNum (py_round p_last 2),
                           CNum (py_round (sr_p_list (sharpe_ratios test_performance_lists)) 3)],
                          [CStr ''Equal weight'', CNone, CNum (py_round p_eq_last 2),
                           CNum (py_round
                                   (sr_p_list_eq (sharpe_ratios test_performance_lists)) 3)],
                          [CStr ''Long Bitcoin'', CNone, CNum (py_round btc_last 2),
                           CNum (py_round btc_price_sharpe 3)]]))))"

fun weight_evolution_loop ::
  "string list \<Rightarrow> npfloat list list \<Rightarrow> int list \<Rightarrow> (string \<times> series) list \<Rightarrow> nat list
     \<Rightarrow> error + (string \<times> series) list" where
  "weight_evolution_loop names rows index plotted [] = Inr plotted"
| "weight_evolution_loop names rows index plotted (j # rest) =
     (if names ! j = CASH_NAME then weight_evolution_loop names rows index plotted rest
      else
        (case np_column_from1 rows j of
           Inl e \<Rightarrow> Inl e
         | Inr column \<Rightarrow>
             (case pd_Series column (tl index) of
                Inl e \<Rightarrow> Inl e
              | Inr w_list_series \<Rightarrow>
                  weight_evolution_loop names rows index
                    (plotted @ [(names ! j, w_list_series)]) rest)))"

definition plot_weight_evolution ::
  "string list \<Rightarrow> npfloat list list \<Rightarrow> series \<Rightarrow> error + (string \<times> series) list" where
  "plot_weight_evolution asset_list' w_list' btc_price_data =
     weight_evolution_loop (CASH_NAME # asset_list') w_list' (map fst btc_price_data) []
       [0 ..< length asset_list' + 1]"

subsection \<open>plot\_train\_results\<close>

definition output_fn :: "string \<Rightarrow> train_configs \<Rightarrow> string" where
  "output_fn timestamp_now train_configs =
     (case cfg_train_session_name train_configs of
        Some name \<Rightarrow> name
      | None \<Rightarrow>
          (case cfg_test_mode train_configs of
             Some True \<Rightarrow> ''test''
           | _ \<Rightarrow> timestamp_now))"

definition train_results_path :: "string \<Rightarrow> train_configs \<Rightarrow> string" where
  "train_results_path timestamp_now train_configs =
     os_path_join OUTPUT_DIR
       (''train_results_'' @ output_fn timestamp_now train_configs @ ''.png'')"

text \<open>
  The figure is saved after all four panels are drawn; \<open>plt.show()\<close> afterwards changes
  no file and is left out.
\<close>

definition plot_train_results ::
  "(string \<Rightarrow> error + csv_rows) \<Rightarrow> world \<Rightarrow> train_configs \<Rightarrow> train_performance_lists
     \<Rightarrow> test_performance_lists \<Rightarrow> string list \<Rightarrow> real \<Rightarrow> train_test_val_steps
     \<Rightarrow> (error + unit) \<times> world" where
  "plot_train_results parse_csv w train_configs train_performance_lists
       test_performance_lists asset_list' train_time_secs train_test_val_steps =
     (let timestamp_now = clock w
      in case get_btc_price_data_for_period parse_csv w train_configs train_test_val_steps of
           Inl e \<Rightarrow> (Inl e, w)
         | Inr (btc_price_data, btc_price_sharpe) \<Rightarrow>
         (case plot_portfolio_value_progress_test test_performance_lists btc_price_data of
            Inl e \<Rightarrow> (Inl e, w)
          | Inr progress \<Rightarrow>
          (case plot_sharpe_table test_performance_lists btc_price_sharpe btc_price_data of
             Inl e \<Rightarrow> (Inl e, w)
           | Inr sharpe_tbl \<Rightarrow>
           (case plot_weight_evolution asset_list' (w_list test_performance_lists)
                   btc_price_data of
              Inl e \<Rightarrow> (Inl e, w)
            | Inr evolution \<Rightarrow>
                (Inr (),
                 savefig w (train_results_path timestamp_now train_configs)
                   (TrainResultsFigure
                      \<lparr>portfolio_value_progress = progress,
                       sharpe_table = sharpe_tbl,
                       weight_evolution = evolution,
                       train_params =
                         (timestamp_now, train_time_secs, train_configs)\<rparr>))))))"

subsection \<open>make\_train\_histograms\<close>

definition json_path :: "string \<Rightarrow> string" where
  "json_path session_name =
     os_path_join JSON_OUTPUT_DIR (''train_history_'' @ session_name @ ''.json'')"

definition histogram_path :: "string \<Rightarrow> string" where
  "histogram_path session_name =
     os_path_join HISTOGRAM_OUTPUT_DIR (''histogram_'' @ session_name @ ''.png'')"

definition histogram_figure_of :: "string \<Rightarrow> history \<Rightarrow> backtest_stats \<Rightarrow> histogram_figure" where
  "histogram_figure_of session_name filtered_history backtest_stats =
     \<lparr>table = plot_histogram_metadata_table (length filtered_history) session_name
                 backtest_stats,
      histograms =
        [plot_histogram (dynamic_pf_values backtest_stats)
           ''Dynamic agent: Distribution of Portfolio Values'' ''Portfolio value'',
         plot_histogram (static_pf_values backtest_stats)
           ''Static agent: Distribution of Portfolio Values'' ''Portfolio value'',
         plot_histogram (dynamic_sharpe_ratios backtest_stats)
           ''Dynamic agent: Distribution of Sharpe Ratios'' ''Sharpe ratio'',
         plot_histogram (static_sharpe_ratios backtest_stats)
           ''Static agent: Distribution of Sharpe Ratios'' ''Sharpe ratio'',
         plot_histogram (dynamic_mdds backtest_stats)
           ''Dynamic agent: Distribution of Maximum Drawdowns'' ''Maximum drawdown'',
         plot_histogram (static_mdds backtest_stats)
           ''Static agent: Distribution of Maximum Drawdowns'' ''Maximum drawdown'',
         plot_histogram (crypto_weight_averages backtest_stats)
           ''Both agents: Distribution of the average of weights'' ''Average weight'',
         plot_histogram (crypto_weight_std_devs backtest_stats)
           ''Both agents: Distribution of the standard deviation of weights''
           ''Stdev of weights'']\<rparr>"

text \<open>
  \<open>json.load\<close> is a parameter: it returns the history or the exception it raises. The
  calls of matplotlib and seaborn are rendering: the model keeps what is drawn and takes
  the calls to succeed.
\<close>

definition make_train_histograms ::
  "(string \<Rightarrow> error + history) \<Rightarrow> world \<Rightarrow> string \<Rightarrow> (error + unit) \<times> world" where
  "make_train_histograms json_load w session_name =
     (case open_read w (json_path session_name) of
        Inl e \<Rightarrow> (Inl e, w)
      | Inr txt \<Rightarrow>
          (case json_load txt of
             Inl e \<Rightarrow> (Inl e, w)
           | Inr history_dict \<Rightarrow>
               (let filtered_history = filter_history_dict history_dict
                in case aggregate_backtest_stats filtered_history of
                     Inl e \<Rightarrow> (Inl e, w)
                   | Inr backtest_stats \<Rightarrow>
                       (Inr (),
                        savefig w (histogram_path session_name)
                          (HistogramFigure
                             (histogram_figure_of session_name filtered_history
                                backtest_stats))))))"

section \<open>The training session (deep\_rl\_portfolio.py)\<close>

text \<open>
  The modules and constants \<open>main\<close> imports from outside the three files: the data
  pipeline, the trading environment, the training and the test of the agent, and the two
  split ratios of \<open>src.params\<close>. They are parameters; \<open>'d\<close> is the dataset, \<open>'e\<close> an
  environment and \<open>'m\<close> the trained actor with its two helper functions.
\<close>

record 'e trade_envs =
  policy_network_env :: 'e
  equal_weighted_env :: 'e
  only_cash :: 'e
  full_on_one_stocks :: "'e list"

record ('d, 'e, 'm) externals =
  RATIO_TRAIN :: real
  RATIO_VAL :: real
  get_crypto_price_tensors :: "int \<Rightarrow> string \<Rightarrow> string \<Rightarrow> string \<Rightarrow> error + ('d \<times> string list)"
  shape2 :: "'d \<Rightarrow> int"
  TradeEnv :: "'d \<Rightarrow> int \<Rightarrow> error + 'e"
  train_rl_algorithm ::
    "train_configs \<Rightarrow> 'e trade_envs \<Rightarrow> string list \<Rightarrow> train_test_val_steps
       \<Rightarrow> error + ('m \<times> train_performance_lists)"
  test_rl_algorithm ::
    "train_configs \<Rightarrow> 'm \<Rightarrow> 'e trade_envs \<Rightarrow> train_test_val_steps
       \<Rightarrow> error + test_performance_lists"
  parse_csv :: "string \<Rightarrow> error + csv_rows"

definition get_train_val_test_steps ::
  "('d, 'e, 'm) externals \<Rightarrow> int \<Rightarrow> train_test_val_steps" where
  "get_train_val_test_steps ext trading_period =
     (let total_steps_train = py_int (RATIO_TRAIN ext * of_int trading_period);
          total_steps_val = py_int (RATIO_VAL ext * of_int trading_period);
          total_steps_test = trading_period - total_steps_train - total_steps_val
      in \<lparr>train = total_steps_train, test = total_steps_test,
          validation = total_steps_val\<rparr>)"

text \<open>
  Every environment is built from the same arguments; \<open>range(no_of_assets)\<close> is empty
  for a count below one.
\<close>

definition get_train_environments ::
  "('d, 'e, 'm) externals \<Rightarrow> int \<Rightarrow> 'd \<Rightarrow> int \<Rightarrow> error + 'e trade_envs" where
  "get_train_environments ext no_of_assets dataset window_length =
     (case TradeEnv ext dataset window_length of
        Inl e \<Rightarrow> Inl e
      | Inr env \<Rightarrow>
          Inr \<lparr>policy_network_env = env, equal_weighted_env = env, only_cash = env,
               full_on_one_stocks = replicate (nat no_of_assets) env\<rparr>)"

definition initialize_trade_envs ::
  "('d, 'e, 'm) externals \<Rightarrow> train_configs
     \<Rightarrow> error + ('e trade_envs \<times> string list \<times> train_test_val_steps)" where
  "initialize_trade_envs ext train_configs =
     (case get_crypto_price_tensors ext (cfg_no_of_assets train_configs)
             (cfg_start_date train_configs) (cfg_end_date train_configs)
             (cfg_trading_period_length train_configs) of
        Inl e \<Rightarrow> Inl e
      | Inr (dataset, asset_names) \<Rightarrow>
          (let train_test_val_steps = get_train_val_test_steps ext (shape2 ext dataset)
           in case get_train_environments ext (cfg_no_of_assets train_configs) dataset
                     (cfg_window_length train_configs) of
                Inl e \<Rightarrow> Inl e
              | Inr train_envs \<Rightarrow> Inr (train_envs, asset_names, train_test_val_steps)))"

text \<open>
  A call of \<open>plot_train_results\<close> with positional arguments. The function has six
  parameters without defaults, so any other number of arguments raises TypeError before
  the body runs. The body reads its parameters as what their names say; an argument of
  another kind makes it fail, which is TypeError here as well.
\<close>

datatype pyval =
    PyConfigs train_configs
  | PyTrainPerf train_performance_lists
  | PyTestPerf test_performance_lists
  | PyStr string
  | PyStrList "string list"
  | PyFloat real
  | PySteps train_test_val_steps

definition plot_train_results_params :: "string list" where
  "plot_train_results_params =
     [''train_configs'', ''train_performance_lists'', ''test_performance_lists'',
      ''asset_list'', ''train_time_secs'', ''train_test_val_steps'']"

definition call_plot_train_results ::
  "(string \<Rightarrow> error + csv_rows) \<Rightarrow> world \<Rightarrow> pyval list \<Rightarrow> (error + unit) \<times> world" where
  "call_plot_train_results parse_csv' w args =
     (if length args \<noteq> length plot_train_results_params then (Inl TypeError, w)
      else
        (case (args ! 0, args ! 1, args ! 2, args ! 3, args ! 4, args ! 5) of
           (PyConfigs c, PyTrainPerf trp, PyTestPerf tep, PyStrList al, PyFloat secs,
            PySteps st) \<Rightarrow>
             plot_train_results parse_csv' w c trp tep al secs st
         | _ \<Rightarrow> (Inl TypeError, w)))"

text \<open>
  \<open>main\<close>. Its call of \<open>plot_train_results\<close> passes five arguments: the configurations,
  the test performance lists, the train performance lists, the string \<open>"stocks"\<close> and
  the asset list.
\<close>

definition main ::
  "('d, 'e, 'm) externals \<Rightarrow> world \<Rightarrow> train_configs \<Rightarrow> (error + unit) \<times> world" where
  "main ext w train_configs =
     (case initialize_trade_envs ext train_configs of
        Inl e \<Rightarrow> (Inl e, w)
      | Inr (trade_envs, asset_list', train_test_val_steps) \<Rightarrow>
          (case train_rl_algorithm ext train_configs trade_envs asset_list'
                  train_test_val_steps of
             Inl e \<Rightarrow> (Inl e, w)
           | Inr (model, train_performance_lists) \<Rightarrow>
               (case test_rl_algorithm ext train_configs model trade_envs
                       train_test_val_steps of
                  Inl e \<Rightarrow> (Inl e, w)
                | Inr test_performance_lists \<Rightarrow>
                    if cfg_plot_results train_configs then
                      call_plot_train_results (parse_csv ext) w
                        [PyConfigs train_configs,
                         PyTestPerf test_performance_lists,
                         PyTrainPerf train_performance_lists,
                         PyStr ''stocks'',
                         PyStrList asset_list']
                    else (Inr (), w))))"

section \<open>The statistics of the specification\<close>

text \<open>
  The arithmetic mean and the population standard deviation of a list of reals, as the
  specification names them.
\<close>

definition arithmetic_mean :: "real list \<Rightarrow> real" where
  "arithmetic_mean xs = sum_list xs / real (length xs)"

definition population_std_dev :: "real list \<Rightarrow> real" where
  "population_std_dev xs =
     sqrt (sum_list (map (\<lambda>x. (x - arithmetic_mean xs)\<^sup>2) xs) / real (length xs))"

subsection \<open>The baseline series\<close>

text \<open>
  The rows of the test period and their close prices; a list under the integer labels
  \<open>0, 1, \<dots>\<close>; the recurrence of the baseline (start at the initial value, multiply the
  previous value by one plus the change); the closed form the specification gives; and the
  ratio of the total gain to the standard deviation of the series.
\<close>

definition labelled :: "'a list \<Rightarrow> (nat \<times> 'a) list" where
  "labelled vs = zip [0 ..< length vs] vs"

fun baseline_rec :: "npfloat list \<Rightarrow> npfloat \<Rightarrow> nat \<Rightarrow> npfloat" where
  "baseline_rec ds v0 0 = v0"
| "baseline_rec ds v0 (Suc k) =
     np_mul (baseline_rec ds v0 k) (np_add (ds ! Suc k) (Fin 1))"

definition baseline_values :: "real \<Rightarrow> real list \<Rightarrow> npfloat list" where
  "baseline_values pv closes =
     map (baseline_rec (pct_change closes) (Fin pv)) [0 ..< length closes]"

definition test_period_rows :: "csv_rows \<Rightarrow> train_test_val_steps \<Rightarrow> csv_rows" where
  "test_period_rows rows st = py_slice_from rows (train st + validation st)"

definition test_segment :: "csv_rows \<Rightarrow> train_test_val_steps \<Rightarrow> real list" where
  "test_segment rows st = map snd (test_period_rows rows st)"

definition gain_over_volatility :: "npfloat list \<Rightarrow> npfloat" where
  "gain_over_volatility vals = np_div (np_sub (last vals) (hd vals)) (np_std vals)"

definition buy_and_hold :: "real \<Rightarrow> real list \<Rightarrow> real list" where
  "buy_and_hold pv closes = map (\<lambda>c. pv * c / closes ! 0) closes"

text \<open>The cell of a table in the row with a given label, under a given column.\<close>

definition table_cell :: "string list \<Rightarrow> cell list list \<Rightarrow> string \<Rightarrow> string \<Rightarrow> cell option" where
  "table_cell columns rows label column =
     (case find (\<lambda>r. r \<noteq> [] \<and> hd r = CStr label) rows of
        None \<Rightarrow> None
      | Some r \<Rightarrow> map_of (zip columns r) column)"

subsection \<open>Rounded statistics in a table\<close>

text \<open>
  \<open>y\<close> is \<open>x\<close> rounded to \<open>n\<close> decimal places: it has at most \<open>n\<close> decimals and no
  number with at most \<open>n\<close> decimals is nearer to \<open>x\<close>. A cell shows the statistic \<open>f\<close> of
  a list, rounded to 4 decimal places, when it holds such a number; for an empty list, or
  one with a non-finite element, it holds numpy's non-finite value.
\<close>

definition is_rounding :: "nat \<Rightarrow> real \<Rightarrow> real \<Rightarrow> bool" where
  "is_rounding n x y =
     (y * 10 ^ n = of_int \<lfloor>y * 10 ^ n\<rfloor> \<and> \<bar>y - x\<bar> \<le> 1 / (2 * 10 ^ n))"

fun rounded_stat :: "(real list \<Rightarrow> real) \<Rightarrow> npfloat list \<Rightarrow> cell \<Rightarrow> bool" where
  "rounded_stat f xs (CNum (Fin y)) =
     (xs \<noteq> [] \<and> list_all is_fin xs \<and> is_rounding 4 (f (map the_fin xs)) y)"
| "rounded_stat f xs (CNum NonFinite) = (xs = [] \<or> \<not> list_all is_fin xs)"
| "rounded_stat f xs (CStr _) = False"
| "rounded_stat f xs (CInt _) = False"
| "rounded_stat f xs CNone = False"

text \<open>
  The row with a given label shows, under \<open>Average\<close> and \<open>Stdev\<close>, the rounded mean and
  the rounded population standard deviation of a list.
\<close>

definition stat_row :: "string list \<Rightarrow> cell list list \<Rightarrow> string \<Rightarrow> npfloat list \<Rightarrow> bool" where
  "stat_row columns rows label xs =
     (case table_cell columns rows label ''Average'' of
        None \<Rightarrow> False
      | Some average \<Rightarrow>
          (case table_cell columns rows label ''Stdev'' of
             None \<Rightarrow> False
           | Some stdev \<Rightarrow>
               rounded_stat arithmetic_mean xs average \<and>
               rounded_stat population_std_dev xs stdev))"

definition dynamic_row :: "metadata_table \<Rightarrow> string \<Rightarrow> npfloat list \<Rightarrow> bool" where
  "dynamic_row t label xs = stat_row (dynamic_columns t) (dynamic_data t) label xs"

definition static_row :: "metadata_table \<Rightarrow> string \<Rightarrow> npfloat list \<Rightarrow> bool" where
  "static_row t label xs = stat_row (static_columns t) (static_data t) label xs"

text \<open>A row is shared when the two tables hold the same cells in it.\<close>

definition shared_row :: "metadata_table \<Rightarrow> string \<Rightarrow> bool" where
  "shared_row t label =
     (table_cell (dynamic_columns t) (dynamic_data t) label ''Average''
        = table_cell (static_columns t) (static_data t) label ''Average'' \<and>
      table_cell (dynamic_columns t) (dynamic_data t) label ''Stdev''
        = table_cell (static_columns t) (static_data t) label ''Stdev'')"

section \<open>Example data\<close>

definition stats0 :: agent_stats where
  "stats0 = \<lparr>pf_value = Fin 1, mdd = Fin 0, sharpe_ratio = Fin 2\<rparr>"

definition run_ok :: run where
  "run_ok = \<lparr>initial_weights = [1 / 10, 3 / 10, 6 / 10],
            dynamic = \<lparr>pf_value = Fin 12, mdd = Fin (1 / 4), sharpe_ratio = Fin 3\<rparr>,
            static = \<lparr>pf_value = Fin 11, mdd = Fin (1 / 5), sharpe_ratio = Fin 2\<rparr>,
            eq_weight = stats0,
            asset_list = [''ETH'', ''XRP''],
            test_start = Some ''2019-01-01'', test_end = None,
            trading_period_length = Some ''2h''\<rparr>"

definition run_negative :: run where
  "run_negative = run_ok\<lparr>initial_weights := [- 1 / 10, 5 / 10, 6 / 10]\<rparr>"

definition run_huge :: run where
  "run_huge = run_ok\<lparr>initial_weights := [1 / 10, 1 / 10, 8 / 10]\<rparr>"

definition history3 :: history where
  "history3 = [(''t1'', run_negative), (''t2'', run_ok), (''t3'', run_huge)]"

definition run_no_weights :: run where
  "run_no_weights = run_ok\<lparr>initial_weights := []\<rparr>"

definition history_no_weights :: history where
  "history_no_weights = [(''t1'', run_no_weights)]"

definition run_cash_only :: run where
  "run_cash_only =
     run_ok\<lparr>initial_weights := [1 / 2],
            dynamic := \<lparr>pf_value = Fin 14, mdd = Fin (1 / 2), sharpe_ratio = Fin 5\<rparr>,
            test_start := None, test_end := Some ''2019-03-01'',
            trading_period_length := None\<rparr>"

definition history_two :: history where
  "history_two = [(''t2'', run_ok), (''t5'', run_cash_only)]"

definition history_all_removed :: history where
  "history_all_removed = [(''t1'', run_negative), (''t3'', run_huge)]"

text \<open>A stand-in for \<open>json.load\<close> that knows three texts.\<close>

definition json_load0 :: "string \<Rightarrow> error + history" where
  "json_load0 txt =
     (if txt = ''history3'' then Inr history3
      else if txt = ''history_all_removed'' then Inr history_all_removed
      else if txt = ''{}'' then Inr []
      else Inl JSONDecodeError)"

definition world0 :: world where
  "world0 =
     \<lparr>input_files =
        [''train_jsons/train_history_a.json'' \<mapsto> ''history3'',
         ''train_jsons/train_history_b.json'' \<mapsto> ''history_all_removed'',
         ''train_jsons/train_history_c.json'' \<mapsto> ''{}'',
         ''train_jsons/train_history_d.json'' \<mapsto> ''{ t1 : ''],
      png_files = Map.empty,
      clock = ''2020-01-01_12:00:00''\<rparr>"

text \<open>A session with a price file of five rows, the first of which is training data.\<close>

definition cfg0 :: train_configs where
  "cfg0 = \<lparr>cfg_start_date = ''20190101'', cfg_end_date = ''20190301'',
           cfg_trading_period_length = ''2h'', cfg_portfolio_value = 10000,
           cfg_window_length = 77, cfg_no_of_assets = 2, cfg_n_batches = 1,
           cfg_n_episodes = 1, cfg_batch_size = 1, cfg_plot_results = True,
           cfg_train_session_name = None, cfg_test_mode = None\<rparr>"

definition rows0 :: csv_rows where
  "rows0 = [(1546300800, 5), (1546308000, 1), (1546315200, 2), (1546322400, 2),
            (1546329600, 5)]"

definition parse_csv0 :: "string \<Rightarrow> error + csv_rows" where
  "parse_csv0 txt = (if txt = ''rows0'' then Inr rows0 else Inl ParserError)"

definition world_btc :: world where
  "world_btc =
     \<lparr>input_files =
        [''crypto_data/USDT_BTC/20190101-20190301/USDT_BTC_20190101-20190301_2h.csv''
           \<mapsto> ''rows0''],
      png_files = Map.empty,
      clock = ''2020-01-01_12:00:00''\<rparr>"

definition steps0 :: train_test_val_steps where
  "steps0 = \<lparr>train = 1, test = 4, validation = 0\<rparr>"

definition series0 :: series where
  "series0 = [(1546315200, Fin 10000), (1546322400, Fin 20000), (1546329600, Fin 20000),
              (1546336800, Fin 50000)]"

definition perf0 :: test_performance_lists where
  "perf0 = \<lparr>p_list = [Fin 10000, Fin 11000, Fin 12000, Fin 13000],
            p_list_eq = [Fin 10000, Fin 10500, Fin 11000, Fin 11500],
            w_list = [[Fin 1, Fin 0, Fin 0],
                      [Fin (1 / 2), Fin (1 / 4), Fin (1 / 4)],
                      [Fin (1 / 2), Fin (1 / 2), Fin 0],
                      [Fin 0, Fin (1 / 2), Fin (1 / 2)]],
            sharpe_ratios = \<lparr>sr_p_list = Fin (3 / 2), sr_p_list_eq = Fin 1\<rparr>\<rparr>"

definition train_perf0 :: train_performance_lists where
  "train_perf0 = \<lparr>policy_network = [Fin 10000], equal_weighted = [Fin 10000]\<rparr>"

definition bs0 :: backtest_stats where
  "bs0 = \<lparr>dynamic_pf_values = [Fin 12, Fin 14],
          dynamic_mdds = [Fin (1 / 4), Fin (1 / 2)],
          dynamic_sharpe_ratios = [Fin 3, Fin 5],
          static_pf_values = [Fin 11, Fin 11],
          static_mdds = [Fin (1 / 5), Fin (1 / 5)],
          static_sharpe_ratios = [Fin 2, Fin 2],
          cash_investments = [Fin (1 / 10), Fin (1 / 2)],
          crypto_weight_averages = [Fin (9 / 20), NonFinite],
          crypto_weight_std_devs = [Fin (3 / 20), NonFinite],
          first_key = ''t2'',
          agg_asset_list = [''ETH'', ''XRP''],
          eq_pf_value = Fin 1, eq_sharpe_ratio = Fin 2, eq_mdd = Fin 0,
          agg_test_start = ''2019-01-01'', agg_test_end = ''2019-03-01'',
          agg_trading_period_length = ''2h''\<rparr>"

text \<open>Stand-ins for the modules outside the three files.\<close>

definition ext0 :: "(unit, unit, unit) externals" where
  "ext0 = \<lparr>RATIO_TRAIN = 3 / 5, RATIO_VAL = 1 / 5,
           get_crypto_price_tensors = (\<lambda>n sd ed pl. Inr ((), [''ETH'', ''XRP''])),
           shape2 = (\<lambda>d. 5),
           TradeEnv = (\<lambda>d wl. Inr ()),
           train_rl_algorithm = (\<lambda>c e a st. Inr ((), train_perf0)),
           test_rl_algorithm = (\<lambda>c m e st. Inr perf0),
           parse_csv = parse_csv0\<rparr>"

text \<open>
  Two runs within the weight bounds whose equally weighted portfolios differ, and what the
  aggregation returns for them.
\<close>

definition run_eq1 :: run where
  "run_eq1 = run_ok\<lparr>initial_weights := [1 / 2, 1 / 2],
                     eq_weight := \<lparr>pf_value = Fin 1, mdd = Fin 0, sharpe_ratio = Fin 2\<rparr>\<rparr>"

definition run_eq3 :: run where
  "run_eq3 = run_ok\<lparr>initial_weights := [1 / 2, 1 / 2],
                     eq_weight :=
                       \<lparr>pf_value = Fin 3, mdd = Fin (1 / 4), sharpe_ratio = Fin 4\<rparr>\<rparr>"

definition history_eq :: history where
  "history_eq = [(''t1'', run_eq1), (''t2'', run_eq3)]"

definition bs_eq :: backtest_stats where
  "bs_eq = \<lparr>dynamic_pf_values = [Fin 12, Fin 12],
            dynamic_mdds = [Fin (1 / 4), Fin (1 / 4)],
            dynamic_sharpe_ratios = [Fin 3, Fin 3],
            static_pf_values = [Fin 11, Fin 11],
            static_mdds = [Fin (1 / 5), Fin (1 / 5)],
            static_sharpe_ratios = [Fin 2, Fin 2],
            cash_investments = [Fin (1 / 2), Fin (1 / 2)],
            crypto_weight_averages = [Fin (1 / 2), Fin (1 / 2)],
            crypto_weight_std_devs = [Fin 0, Fin 0],
            first_key = ''t1'',
            agg_asset_list = [''ETH'', ''XRP''],
            eq_pf_value = Fin 1, eq_sharpe_ratio = Fin 2, eq_mdd = Fin 0,
            agg_test_start = ''2019-01-01'', agg_test_end = ''NA'',
            agg_trading_period_length = ''2h''\<rparr>"

definition table_eq :: metadata_table where
  "table_eq = plot_histogram_metadata_table 2 ''run_1'' bs_eq"

definition table0 :: metadata_table where
  "table0 = plot_histogram_metadata_table 2 ''run_1'' bs0"

section \<open>Properties of the filter\<close>

lemma dict_set_fresh:
  "k \<notin> fst ` set d \<Longrightarrow> dict_set k v d = d @ [(k, v)]"
  by (induction d) auto

lemma weights_within_bounds_list_all:
  "weights_within_bounds r =
     list_all (\<lambda>w. \<not> w < 0 \<and> \<not> w > 7 / 10) (initial_weights r)"
  by (simp add: weights_within_bounds_def list_all_iff)

lemma filter_step_keep:
  "weights_within_bounds r \<Longrightarrow>
   filter_history_loop acc ((k, r) # h) = filter_history_loop (dict_set k r acc) h"
  by (auto simp: weights_within_bounds_def list_ex_iff)

lemma filter_step_drop:
  "\<not> weights_within_bounds r \<Longrightarrow>
   filter_history_loop acc ((k, r) # h) = filter_history_loop acc h"
  by (auto simp: weights_within_bounds_def list_ex_iff)

lemma filter_history_loop_eq:
  "distinct (map fst acc @ map fst h) \<Longrightarrow>
   filter_history_loop acc h = acc @ filter (\<lambda>(k, r). weights_within_bounds r) h"
proof (induction h arbitrary: acc)
  case Nil
  then show ?case by simp
next
  case (Cons p h)
  obtain k r where p: "p = (k, r)" by (cases p)
  from Cons.prems p have fresh: "k \<notin> fst ` set acc"
    and d1: "distinct (map fst acc @ map fst h)"
    and d2: "distinct (map fst (acc @ [(k, r)]) @ map fst h)"
    by auto
  show ?case
  proof (cases "weights_within_bounds r")
    case True
    have "filter_history_loop acc (p # h) = filter_history_loop (dict_set k r acc) h"
      unfolding p by (rule filter_step_keep [OF True])
    also have "\<dots> = filter_history_loop (acc @ [(k, r)]) h"
      by (simp only: dict_set_fresh [OF fresh])
    also have "\<dots> = (acc @ [(k, r)]) @ filter (\<lambda>(k, r). weights_within_bounds r) h"
      by (rule Cons.IH [OF d2])
    finally show ?thesis using True p by simp
  next
    case False
    have "filter_history_loop acc (p # h) = filter_history_loop acc h"
      unfolding p by (rule filter_step_drop [OF False])
    then show ?thesis using False p Cons.IH [OF d1] by simp
  qed
qed

lemma filter_history_dict_eq:
  "is_dict h \<Longrightarrow> filter_history_dict h = filter (\<lambda>(k, r). weights_within_bounds r) h"
  using filter_history_loop_eq [of "[]" h] by (simp add: filter_history_dict_def is_dict_def)

lemma is_dict_filter: "is_dict h \<Longrightarrow> is_dict (filter P h)"
  by (simp add: is_dict_def distinct_map_filter)

lemma map_of_filter_dict:
  "is_dict h \<Longrightarrow>
   map_of (filter (\<lambda>(k, r). P r) h) k =
     (case map_of h k of None \<Rightarrow> None | Some r \<Rightarrow> if P r then Some r else None)"
proof (induction h)
  case Nil
  then show ?case by simp
next
  case (Cons p h)
  obtain k' r' where p: "p = (k', r')" by (cases p)
  from Cons.prems p have dh: "is_dict h" and nk: "k' \<notin> fst ` set h"
    by (auto simp: is_dict_def)
  have absent: "map_of (filter (\<lambda>(k, r). P r) h) k' = None"
    using nk by (auto simp: map_of_eq_None_iff)
  show ?case
    using Cons.IH [OF dh] p absent by (auto split: option.splits)
qed

lemma history3_is_dict: "is_dict history3"
  by (simp add: history3_def is_dict_def)

lemma history3_filtered: "filter_history_dict history3 = [(''t2'', run_ok)]"
  by (simp add: filter_history_dict_def history3_def run_negative_def run_huge_def run_ok_def)

text \<open>
  C2. For a history dictionary keyed by timestamp, \<open>filter_history_dict\<close> returns exactly
  the entries, in their order, whose \<open>initial_weights\<close> hold no element strictly below 0
  and none strictly above 0.7: a timestamp of a run within the bounds maps to the run's
  unchanged input data, and a timestamp of a run violating a bound, like a timestamp that
  is not in the input, is absent from the result.
\<close>

theorem filter_history_dict_exact:
  assumes "is_dict h"
  shows "filter_history_dict h = filter (\<lambda>(k, r). weights_within_bounds r) h \<and>
         map_of (filter_history_dict h) k =
           (case map_of h k of
              None \<Rightarrow> None
            | Some r \<Rightarrow> if weights_within_bounds r then Some r else None)"
  using assms by (simp add: filter_history_dict_eq map_of_filter_dict)

theorem filter_history_dict_exact_witness:
  "is_dict history3 \<and>
   filter_history_dict history3 = [(''t2'', run_ok)] \<and>
   map_of (filter_history_dict history3) ''t2'' = Some run_ok \<and>
   map_of (filter_history_dict history3) ''t1'' = None \<and>
   map_of (filter_history_dict history3) ''t3'' = None"
proof -
  have b: "weights_within_bounds run_ok" "\<not> weights_within_bounds run_negative"
    "\<not> weights_within_bounds run_huge"
    by (simp_all add: weights_within_bounds_list_all run_ok_def run_negative_def run_huge_def)
  show ?thesis
    using filter_history_dict_exact [OF history3_is_dict, of "''t2''"]
      filter_history_dict_exact [OF history3_is_dict, of "''t1''"]
      filter_history_dict_exact [OF history3_is_dict, of "''t3''"]
      history3_is_dict b
    by (simp add: history3_def)
qed

text \<open>
  C10. \<open>filter_history_dict\<close> is idempotent and contracting: applied to its own output
  it returns that output unchanged, and its output is a sub-dictionary of its input: every
  entry of the output is an entry of the input, under the same key and with the same
  value, and the output is again a dictionary.
\<close>

theorem filter_history_dict_idempotent_contracting:
  assumes "is_dict h"
  shows "filter_history_dict (filter_history_dict h) = filter_history_dict h \<and>
         set (filter_history_dict h) \<subseteq> set h \<and>
         is_dict (filter_history_dict h) \<and>
         (\<forall>k r. map_of (filter_history_dict h) k = Some r \<longrightarrow> map_of h k = Some r)"
proof -
  let ?P = "\<lambda>(k, r). weights_within_bounds r"
  have eq: "filter_history_dict h = filter ?P h"
    by (rule filter_history_dict_eq [OF assms])
  have d: "is_dict (filter ?P h)"
    by (rule is_dict_filter [OF assms])
  have idem: "filter_history_dict (filter ?P h) = filter ?P h"
    using filter_history_dict_eq [OF d] by simp
  have sub: "\<forall>k r. map_of (filter ?P h) k = Some r \<longrightarrow> map_of h k = Some r"
    using map_of_filter_dict [OF assms, of weights_within_bounds]
    by (auto split: option.splits if_splits)
  show ?thesis
    using eq d idem sub by auto
qed

theorem filter_history_dict_idempotent_contracting_witness:
  "is_dict history3 \<and>
   filter_history_dict (filter_history_dict history3) = filter_history_dict history3 \<and>
   filter_history_dict history3 = [(''t2'', run_ok)] \<and>
   set (filter_history_dict history3) \<subseteq> set history3"
  using filter_history_dict_idempotent_contracting [OF history3_is_dict]
    history3_is_dict history3_filtered
  by simp

section \<open>Properties of the aggregation\<close>

lemma np_mean_Fin:
  "np_mean (map Fin xs) = (if xs = [] then NonFinite else Fin (arithmetic_mean xs))"
  by (simp add: np_mean_def arithmetic_mean_def list_all_iff comp_def)

lemma np_std_Fin:
  "np_std (map Fin xs) = (if xs = [] then NonFinite else Fin (population_std_dev xs))"
  by (simp add: np_std_def population_std_dev_def arithmetic_mean_def list_all_iff
      comp_def Let_def)

lemma aggregate_loop_ok:
  "list_all (\<lambda>(k, r). initial_weights r \<noteq> []) h \<Longrightarrow> \<exists>res. aggregate_loop acc h = Inr res"
  by (induction h arbitrary: acc) (auto split: list.splits)

lemma aggregate_loop_lists:
  "aggregate_loop acc h = Inr res \<Longrightarrow>
   dynamic_pf_values res = dynamic_pf_values acc @ map (\<lambda>(k, r). pf_value (dynamic r)) h \<and>
   dynamic_mdds res = dynamic_mdds acc @ map (\<lambda>(k, r). mdd (dynamic r)) h \<and>
   dynamic_sharpe_ratios res =
     dynamic_sharpe_ratios acc @ map (\<lambda>(k, r). sharpe_ratio (dynamic r)) h \<and>
   static_pf_values res = static_pf_values acc @ map (\<lambda>(k, r). pf_value (static r)) h \<and>
   static_mdds res = static_mdds acc @ map (\<lambda>(k, r). mdd (static r)) h \<and>
   static_sharpe_ratios res =
     static_sharpe_ratios acc @ map (\<lambda>(k, r). sharpe_ratio (static r)) h \<and>
   cash_investments res = cash_investments acc @ map (\<lambda>(k, r). Fin (initial_weights r ! 0)) h \<and>
   crypto_weight_averages res =
     crypto_weight_averages acc @ map (\<lambda>(k, r). np_mean (map Fin (tl (initial_weights r)))) h \<and>
   crypto_weight_std_devs res =
     crypto_weight_std_devs acc @ map (\<lambda>(k, r). np_std (map Fin (tl (initial_weights r)))) h"
proof (induction h arbitrary: acc)
  case Nil
  then show ?case by simp
next
  case (Cons p h)
  obtain k r where p: "p = (k, r)" by (cases p)
  from Cons.prems p obtain cash crypto where ws: "initial_weights r = cash # crypto"
    by (auto split: list.splits)
  show ?case
    using Cons.prems p ws Cons.IH by (auto split: list.splits)
qed

lemma aggregate_backtest_stats_empty: "aggregate_backtest_stats [] = Inl IndexError"
  by (simp add: aggregate_backtest_stats_def)

lemma aggregate_backtest_stats_returns_nonempty:
  "aggregate_backtest_stats fh = Inr res \<Longrightarrow> fh \<noteq> []"
  by (auto simp: aggregate_backtest_stats_def)

lemma history_no_weights_filtered: "filter_history_dict history_no_weights = history_no_weights"
  by (simp add: filter_history_dict_def history_no_weights_def run_no_weights_def)

text \<open>
  C1, as stated, fails: a run whose \<open>initial_weights\<close> list is empty passes the filter
  (no element is out of bounds), so the filtered history is not empty, and the aggregation
  raises IndexError at \<open>initial_weights[0]\<close> instead of returning its lists.
\<close>

theorem aggregate_backtest_stats_counterexample:
  "filter_history_dict history_no_weights = history_no_weights \<and>
   history_no_weights \<noteq> [] \<and>
   aggregate_backtest_stats (filter_history_dict history_no_weights) = Inl IndexError"
  by (simp add: history_no_weights_filtered)
    (simp add: history_no_weights_def run_no_weights_def aggregate_backtest_stats_def)

text \<open>
  C1, amended. For every non-empty filtered history in which every run has at least one
  initial weight, \<open>aggregate_backtest_stats\<close> returns parallel lists with one element
  per run, in iteration order: the dynamic and static lists hold the run's dynamic and
  static \<open>pf_value\<close>, \<open>mdd\<close> and \<open>sharpe_ratio\<close>, \<open>cash_investments\<close> holds element 0
  of the run's \<open>initial_weights\<close>, and \<open>crypto_weight_averages\<close> and
  \<open>crypto_weight_std_devs\<close> hold the arithmetic mean and the population standard
  deviation of \<open>initial_weights[1:]\<close> (numpy's \<open>nan\<close> when that slice is empty).
\<close>

theorem aggregate_backtest_stats_lists:
  assumes "fh \<noteq> []" and "list_all (\<lambda>(k, r). initial_weights r \<noteq> []) fh"
  shows "\<exists>res. aggregate_backtest_stats fh = Inr res \<and>
     dynamic_pf_values res = map (\<lambda>(k, r). pf_value (dynamic r)) fh \<and>
     dynamic_mdds res = map (\<lambda>(k, r). mdd (dynamic r)) fh \<and>
     dynamic_sharpe_ratios res = map (\<lambda>(k, r). sharpe_ratio (dynamic r)) fh \<and>
     static_pf_values res = map (\<lambda>(k, r). pf_value (static r)) fh \<and>
     static_mdds res = map (\<lambda>(k, r). mdd (static r)) fh \<and>
     static_sharpe_ratios res = map (\<lambda>(k, r). sharpe_ratio (static r)) fh \<and>
     cash_investments res = map (\<lambda>(k, r). Fin (initial_weights r ! 0)) fh \<and>
     crypto_weight_averages res =
       map (\<lambda>(k, r). if tl (initial_weights r) = [] then NonFinite
                      else Fin (arithmetic_mean (tl (initial_weights r)))) fh \<and>
     crypto_weight_std_devs res =
       map (\<lambda>(k, r). if tl (initial_weights r) = [] then NonFinite
                      else Fin (population_std_dev (tl (initial_weights r)))) fh"
proof -
  obtain k0 r0 rest where fh: "fh = (k0, r0) # rest"
    using assms(1) by (cases fh) auto
  define acc0 where "acc0 =
    \<lparr>dynamic_pf_values = [], dynamic_mdds = [], dynamic_sharpe_ratios = [],
     static_pf_values = [], static_mdds = [], static_sharpe_ratios = [],
     cash_investments = [], crypto_weight_averages = [], crypto_weight_std_devs = [],
     first_key = k0, agg_asset_list = asset_list r0,
     eq_pf_value = pf_value (eq_weight r0),
     eq_sharpe_ratio = sharpe_ratio (eq_weight r0),
     eq_mdd = mdd (eq_weight r0),
     agg_test_start = ''NA'', agg_test_end = ''NA'',
     agg_trading_period_length = ''NA''\<rparr>"
  have run: "aggregate_backtest_stats fh = aggregate_loop acc0 fh"
    by (simp add: aggregate_backtest_stats_def fh acc0_def)
  obtain res where res: "aggregate_loop acc0 fh = Inr res"
    using aggregate_loop_ok [OF assms(2)] by blast
  have lists: "dynamic_pf_values res = map (\<lambda>(k, r). pf_value (dynamic r)) fh"
    "dynamic_mdds res = map (\<lambda>(k, r). mdd (dynamic r)) fh"
    "dynamic_sharpe_ratios res = map (\<lambda>(k, r). sharpe_ratio (dynamic r)) fh"
    "static_pf_values res = map (\<lambda>(k, r). pf_value (static r)) fh"
    "static_mdds res = map (\<lambda>(k, r). mdd (static r)) fh"
    "static_sharpe_ratios res = map (\<lambda>(k, r). sharpe_ratio (static r)) fh"
    "cash_investments res = map (\<lambda>(k, r). Fin (initial_weights r ! 0)) fh"
    "crypto_weight_averages res =
       map (\<lambda>(k, r). np_mean (map Fin (tl (initial_weights r)))) fh"
    "crypto_weight_std_devs res =
       map (\<lambda>(k, r). np_std (map Fin (tl (initial_weights r)))) fh"
    using aggregate_loop_lists [OF res] by (simp_all add: acc0_def)
  show ?thesis
    using run res lists by (simp add: np_mean_Fin np_std_Fin)
qed

theorem aggregate_backtest_stats_lists_witness:
  "history_two \<noteq> [] \<and>
   list_all (\<lambda>(k, r). initial_weights r \<noteq> []) history_two \<and>
   (\<exists>res. aggregate_backtest_stats history_two = Inr res \<and>
      dynamic_pf_values res = [Fin 12, Fin 14] \<and>
      dynamic_mdds res = [Fin (1 / 4), Fin (1 / 2)] \<and>
      dynamic_sharpe_ratios res = [Fin 3, Fin 5] \<and>
      static_pf_values res = [Fin 11, Fin 11] \<and>
      cash_investments res = [Fin (1 / 10), Fin (1 / 2)] \<and>
      crypto_weight_averages res = [Fin (arithmetic_mean [3 / 10, 6 / 10]), NonFinite] \<and>
      crypto_weight_std_devs res = [Fin (population_std_dev [3 / 10, 6 / 10]), NonFinite])"
proof -
  have ne: "history_two \<noteq> []"
    by (simp add: history_two_def)
  have ws: "list_all (\<lambda>(k, r). initial_weights r \<noteq> []) history_two"
    by (simp add: history_two_def run_ok_def run_cash_only_def)
  from aggregate_backtest_stats_lists [OF ne ws]
  obtain res where "aggregate_backtest_stats history_two = Inr res"
    and "dynamic_pf_values res = map (\<lambda>(k, r). pf_value (dynamic r)) history_two"
    and "dynamic_mdds res = map (\<lambda>(k, r). mdd (dynamic r)) history_two"
    and "dynamic_sharpe_ratios res = map (\<lambda>(k, r). sharpe_ratio (dynamic r)) history_two"
    and "static_pf_values res = map (\<lambda>(k, r). pf_value (static r)) history_two"
    and "cash_investments res = map (\<lambda>(k, r). Fin (initial_weights r ! 0)) history_two"
    and "crypto_weight_averages res =
       map (\<lambda>(k, r). if tl (initial_weights r) = [] then NonFinite
                      else Fin (arithmetic_mean (tl (initial_weights r)))) history_two"
    and "crypto_weight_std_devs res =
       map (\<lambda>(k, r). if tl (initial_weights r) = [] then NonFinite
                      else Fin (population_std_dev (tl (initial_weights r)))) history_two"
    by blast
  then have "aggregate_backtest_stats history_two = Inr res \<and>
      dynamic_pf_values res = [Fin 12, Fin 14] \<and>
      dynamic_mdds res = [Fin (1 / 4), Fin (1 / 2)] \<and>
      dynamic_sharpe_ratios res = [Fin 3, Fin 5] \<and>
      static_pf_values res = [Fin 11, Fin 11] \<and>
      cash_investments res = [Fin (1 / 10), Fin (1 / 2)] \<and>
      crypto_weight_averages res = [Fin (arithmetic_mean [3 / 10, 6 / 10]), NonFinite] \<and>
      crypto_weight_std_devs res = [Fin (population_std_dev [3 / 10, 6 / 10]), NonFinite]"
    by (simp add: history_two_def run_ok_def run_cash_only_def)
  then show ?thesis using ne ws by blast
qed

section \<open>Properties of the BTC baseline\<close>

lemma labelled_snoc: "labelled (vs @ [v]) = labelled vs @ [(length vs, v)]"
  by (simp add: labelled_def)

lemma map_fst_labelled: "map fst (labelled vs) = [0 ..< length vs]"
  by (simp add: labelled_def)

lemma map_snd_labelled: "map snd (labelled vs) = vs"
  by (simp add: labelled_def)

lemma length_labelled: "length (labelled vs) = length vs"
  by (simp add: labelled_def)

lemma map_of_labelled: "k < length vs \<Longrightarrow> map_of (labelled vs) k = Some (vs ! k)"
  using map_of_zip_nth [of "[0 ..< length vs]" vs k] by (simp add: labelled_def)

lemma dict_set_labelled: "dict_set (length vs) v (labelled vs) = labelled (vs @ [v])"
proof -
  have "length vs \<notin> fst ` set (labelled vs)"
    using map_fst_labelled [of vs] by (metis atLeastLessThan_iff less_irrefl list.set_map set_upt)
  then show ?thesis
    by (simp add: dict_set_fresh labelled_snoc)
qed

lemma btc_loop_series:
  "1 \<le> i \<Longrightarrow> i + m \<le> length ds \<Longrightarrow>
   btc_loop ds (labelled (map (baseline_rec ds v0) [0 ..< i])) [i ..< i + m] =
     Inr (labelled (map (baseline_rec ds v0) [0 ..< i + m]))"
proof (induction m arbitrary: i)
  case 0
  then show ?case by simp
next
  case (Suc m)
  let ?vs = "map (baseline_rec ds v0) [0 ..< i]"
  obtain j where i: "i = Suc j" using Suc.prems(1) by (cases i) auto
  have range: "[i ..< i + Suc m] = i # [Suc i ..< Suc i + m]"
    by (simp add: upt_conv_Cons)
  have "?vs ! j = baseline_rec ds v0 j"
    using i by (simp del: upt_Suc)
  then have prev: "map_of (labelled ?vs) (i - 1) = Some (baseline_rec ds v0 j)"
    using map_of_labelled [of j ?vs] i by (simp del: upt_Suc)
  have inr: "i < length ds" using Suc.prems(2) by simp
  have new: "np_mul (baseline_rec ds v0 j) (np_add (ds ! i) (Fin 1)) = baseline_rec ds v0 i"
    by (simp add: i)
  have set: "dict_set i (baseline_rec ds v0 i) (labelled ?vs) =
             labelled (map (baseline_rec ds v0) [0 ..< Suc i])"
    using dict_set_labelled [of ?vs "baseline_rec ds v0 i"] by simp
  have "btc_loop ds (labelled ?vs) [i ..< i + Suc m] =
        btc_loop ds (labelled (map (baseline_rec ds v0) [0 ..< Suc i])) [Suc i ..< Suc i + m]"
    unfolding range using prev inr new set by (simp add: Let_def)
  also have "\<dots> = Inr (labelled (map (baseline_rec ds v0) [0 ..< Suc i + m]))"
    using Suc.IH [of "Suc i"] Suc.prems by simp
  finally show ?case by simp
qed

lemma length_pct_change_from: "length (pct_change_from p cs) = length cs"
  by (induction cs arbitrary: p) auto

lemma length_pct_change: "length (pct_change cs) = length cs"
  by (simp add: pct_change_def length_pct_change_from split: list.splits)

lemma pct_change_from_nth:
  "k < length cs \<Longrightarrow>
   pct_change_from p cs ! k = np_sub (np_div (Fin (cs ! k)) (Fin ((p # cs) ! k))) (Fin 1)"
proof (induction cs arbitrary: p k)
  case Nil
  then show ?case by simp
next
  case (Cons c cs)
  then show ?case by (cases k) auto
qed

lemma pct_change_nth:
  "Suc k < length cs \<Longrightarrow>
   pct_change cs ! Suc k = np_sub (np_div (Fin (cs ! Suc k)) (Fin (cs ! k))) (Fin 1)"
  by (cases cs) (simp_all add: pct_change_def pct_change_from_nth)

lemma baseline_rec_closed:
  "list_all (\<lambda>c. c \<noteq> 0) closes \<Longrightarrow> k < length closes \<Longrightarrow>
   baseline_rec (pct_change closes) (Fin pv) k = Fin (pv * closes ! k / closes ! 0)"
proof (induction k)
  case 0
  then have "closes ! 0 \<noteq> 0" by (simp add: list_all_length)
  then show ?case by simp
next
  case (Suc k)
  from Suc.prems(2) have "k < length closes" "0 < length closes" by auto
  with Suc.prems(1) have nz: "closes ! k \<noteq> 0" "closes ! 0 \<noteq> 0"
    unfolding list_all_length by blast+
  have ih: "baseline_rec (pct_change closes) (Fin pv) k = Fin (pv * closes ! k / closes ! 0)"
    using Suc by simp
  show ?case
    using nz Suc.prems(2) by (simp add: ih pct_change_nth field_simps)
qed


lemma py_slice_from_map: "py_slice_from (map f xs) i = map f (py_slice_from xs i)"
  by (simp add: py_slice_from_def drop_map)

lemma length_baseline_values: "length (baseline_values pv closes) = length closes"
  by (simp add: baseline_values_def)

lemma btc_loop_baseline:
  assumes "1 \<le> length closes"
  shows "btc_loop (pct_change closes) [(0, Fin pv)] [1 ..< length (pct_change closes)] =
         Inr (labelled (baseline_values pv closes))"
proof -
  let ?ds = "pct_change closes"
  have start: "labelled (map (baseline_rec ?ds (Fin pv)) [0 ..< 1]) = [(0, Fin pv)]"
    by (simp add: labelled_def)
  have n: "1 + (length closes - 1) = length closes"
    using assms by simp
  show ?thesis
    using btc_loop_series [of 1 "length closes - 1" ?ds "Fin pv"] assms
    unfolding start n by (simp add: length_pct_change baseline_values_def)
qed

lemma get_btc_price_data_for_period_eq:
  assumes rd: "read_csv pc w (btc_price_fp cfg) = Inr rows"
    and len: "2 \<le> length (test_segment rows st)"
  shows "get_btc_price_data_for_period pc w cfg st =
           Inr (zip (map (\<lambda>(date, close). date + 7200) (test_period_rows rows st))
                  (baseline_values (cfg_portfolio_value cfg) (test_segment rows st)),
                gain_over_volatility
                  (baseline_values (cfg_portfolio_value cfg) (test_segment rows st)))"
proof -
  let ?shift = "\<lambda>(date, close). (date + 7200 :: int, close :: real)"
  let ?tp = "py_slice_from (map ?shift rows) (train st + validation st)"
  let ?seg = "test_segment rows st"
  let ?vals = "baseline_values (cfg_portfolio_value cfg) ?seg"
  have tp: "?tp = map ?shift (test_period_rows rows st)"
    by (simp add: py_slice_from_map test_period_rows_def)
  have seg: "map snd ?tp = ?seg"
    unfolding tp by (simp add: test_segment_def comp_def split_def)
  have idx: "map fst ?tp = map (\<lambda>(date, close). date + 7200) (test_period_rows rows st)"
    unfolding tp by (simp add: comp_def split_def)
  have ltp: "length ?tp = length ?seg"
    unfolding tp by (simp add: test_segment_def)
  have n: "length (pct_change ?seg) = length ?seg"
    by (rule length_pct_change)
  have loop: "btc_loop (pct_change ?seg) [(0, Fin (cfg_portfolio_value cfg))]
                [1 ..< length (pct_change ?seg)] = Inr (labelled ?vals)"
    using btc_loop_baseline [of ?seg] len by simp
  have lv: "length ?vals = length ?seg"
    by (rule length_baseline_values)
  have ne: "?vals \<noteq> []"
    using len lv by auto
  have l: "last ?vals = ?vals ! (length ?seg - 1)"
    using last_conv_nth [OF ne] lv by simp
  have h: "hd ?vals = ?vals ! 0"
    by (rule hd_conv_nth [OF ne])
  have pos: "0 < length ?vals" "length ?seg - 1 < length ?vals"
    using len lv by arith+
  have lastv: "map_of (labelled ?vals) (length (pct_change ?seg) - 1) = Some (last ?vals)"
    unfolding l n by (rule map_of_labelled [OF pos(2)])
  have firstv: "map_of (labelled ?vals) 0 = Some (hd ?vals)"
    unfolding h by (rule map_of_labelled [OF pos(1)])
  have not_short: "\<not> length (pct_change ?seg) \<le> 1"
    using len n by simp
  show ?thesis
    unfolding get_btc_price_data_for_period_def rd Let_def sum.case seg
    unfolding loop sum.case lastv firstv option.case
    using not_short
    by (simp add: map_snd_labelled length_labelled lv ltp idx gain_over_volatility_def)
qed

lemma get_btc_price_data_for_period_short:
  assumes rd: "read_csv pc w (btc_price_fp cfg) = Inr rows"
    and len: "length (test_segment rows st) < 2"
  shows "get_btc_price_data_for_period pc w cfg st = Inl UnboundLocalError"
proof -
  let ?shift = "\<lambda>(date, close). (date + 7200 :: int, close :: real)"
  let ?tp = "py_slice_from (map ?shift rows) (train st + validation st)"
  let ?seg = "test_segment rows st"
  have tp: "?tp = map ?shift (test_period_rows rows st)"
    by (simp add: py_slice_from_map test_period_rows_def)
  have seg: "map snd ?tp = ?seg"
    unfolding tp by (simp add: test_segment_def comp_def split_def)
  have n: "length (pct_change ?seg) = length ?seg"
    by (rule length_pct_change)
  have empty: "[1 ..< length (pct_change ?seg)] = []"
    using len n by simp
  show ?thesis
    unfolding get_btc_price_data_for_period_def rd Let_def sum.case seg empty
    using len n by simp
qed

lemma baseline_values_closed:
  assumes "list_all (\<lambda>c. c \<noteq> 0) closes"
  shows "baseline_values pv closes = map Fin (buy_and_hold pv closes)"
proof (rule nth_equalityI)
  show "length (baseline_values pv closes) = length (map Fin (buy_and_hold pv closes))"
    by (simp add: baseline_values_def buy_and_hold_def)
next
  fix k
  assume "k < length (baseline_values pv closes)"
  then have k: "k < length closes"
    by (simp add: baseline_values_def)
  show "baseline_values pv closes ! k = map Fin (buy_and_hold pv closes) ! k"
    using k baseline_rec_closed [OF assms k, of pv]
    by (simp add: baseline_values_def buy_and_hold_def)
qed


lemma btc_price_fp_cfg0:
  "btc_price_fp cfg0 =
     ''crypto_data/USDT_BTC/20190101-20190301/USDT_BTC_20190101-20190301_2h.csv''"
  by (simp add: btc_price_fp_def cfg0_def os_path_join_def DATA_DIR_def)

lemma read_csv_world_btc: "read_csv parse_csv0 world_btc (btc_price_fp cfg0) = Inr rows0"
  by (simp add: btc_price_fp_cfg0 read_csv_def world_btc_def parse_csv0_def)

lemma test_period_rows0:
  "test_period_rows rows0 steps0 =
     [(1546308000, 1), (1546315200, 2), (1546322400, 2), (1546329600, 5)]"
  by (simp add: test_period_rows_def rows0_def steps0_def py_slice_from_def)

lemma test_segment0: "test_segment rows0 steps0 = [1, 2, 2, 5]"
  by (simp add: test_segment_def test_period_rows0)



section \<open>The Sharpe value of the baseline\<close>

lemma two_le_length_nonempty: "2 \<le> length xs \<Longrightarrow> xs \<noteq> []"
  by (cases xs) simp_all

lemma plot_sharpe_table_ok:
  assumes "p_list tp \<noteq> []" and "p_list_eq tp \<noteq> []" and "series \<noteq> []"
  shows "plot_sharpe_table tp sharpe series =
     Inr ([''Strategy'', ''MDD'', ''fAPV'', ''Sharpe''],
          [[CStr ''DRL'', CNone, CNum (py_round (last (p_list tp)) 2),
            CNum (py_round (sr_p_list (sharpe_ratios tp)) 3)],
           [CStr ''Equal weight'', CNone, CNum (py_round (last (p_list_eq tp)) 2),
            CNum (py_round (sr_p_list_eq (sharpe_ratios tp)) 3)],
           [CStr ''Long Bitcoin'', CNone, CNum (py_round (last (map snd series)) 2),
            CNum (py_round sharpe 3)]])"
  using assms by (simp add: plot_sharpe_table_def py_last_def split: list.splits)

lemma long_bitcoin_sharpe_cell:
  "table_cell [''Strategy'', ''MDD'', ''fAPV'', ''Sharpe'']
     [[CStr ''DRL'', c1, c2, c3], [CStr ''Equal weight'', c4, c5, c6],
      [CStr ''Long Bitcoin'', c7, c8, c9]] ''Long Bitcoin'' ''Sharpe'' = Some c9"
  by (simp add: table_cell_def)

lemma gain_over_volatility_Fin:
  assumes "xs \<noteq> []" and "population_std_dev xs \<noteq> 0"
  shows "gain_over_volatility (map Fin xs) = Fin ((last xs - hd xs) / population_std_dev xs)"
  using assms by (simp add: gain_over_volatility_def np_std_Fin last_map hd_map)

lemma sqrt_225000000: "sqrt (225000000 :: real) = 15000"
  by (rule real_sqrt_unique) simp_all

lemma buy_and_hold0: "buy_and_hold 10000 [1, 2, 2, 5] = [10000, 20000, 20000, 50000]"
  by (simp add: buy_and_hold_def)

lemma population_std_dev0: "population_std_dev [10000, 20000, 20000, 50000] = 15000"
  by (simp add: population_std_dev_def arithmetic_mean_def sqrt_225000000)

lemma get_btc_price_data_for_period0:
  "get_btc_price_data_for_period parse_csv0 world_btc cfg0 steps0 = Inr (series0, Fin (8 / 3))"
proof -
  have len: "2 \<le> length (test_segment rows0 steps0)"
    by (simp add: test_segment0)
  have nz: "list_all (\<lambda>c. c \<noteq> 0) [1, 2, 2, 5 :: real]"
    by simp
  have vals: "baseline_values (cfg_portfolio_value cfg0) (test_segment rows0 steps0) =
              map Fin [10000, 20000, 20000, 50000]"
    using baseline_values_closed [OF nz, of 10000]
    by (simp only: test_segment0 buy_and_hold0) (simp add: cfg0_def)
  have g: "gain_over_volatility (map Fin [10000, 20000, 20000, 50000]) = Fin (8 / 3)"
    using gain_over_volatility_Fin [of "[10000, 20000, 20000, 50000]"]
    by (simp add: population_std_dev0)
  show ?thesis
    unfolding get_btc_price_data_for_period_eq [OF read_csv_world_btc len] vals g
    by (simp add: test_period_rows0 series0_def)
qed

lemma py_round_8_3: "py_round (Fin (8 / 3)) 3 = Fin (2667 / 1000)"
  by (simp add: round_half_even_def Let_def)

text \<open>
  C9, as stated, fails: the table shows the ratio rounded to three decimals. For the
  baseline series 10000, 20000, 20000, 50000 the ratio is 40000 / 15000 = 8/3 and the
  \<open>Sharpe\<close> cell of the \<open>Long Bitcoin\<close> row holds 2.667.
\<close>

theorem btc_sharpe_counterexample:
  "get_btc_price_data_for_period parse_csv0 world_btc cfg0 steps0 = Inr (series0, Fin (8 / 3)) \<and>
   np_div (np_sub (snd (last series0)) (snd (hd series0))) (np_std (map snd series0))
     = Fin (8 / 3) \<and>
   plot_sharpe_table perf0 (Fin (8 / 3)) series0 =
     Inr ([''Strategy'', ''MDD'', ''fAPV'', ''Sharpe''],
          [[CStr ''DRL'', CNone, CNum (Fin 13000), CNum (Fin (3 / 2))],
           [CStr ''Equal weight'', CNone, CNum (Fin 11500), CNum (Fin 1)],
           [CStr ''Long Bitcoin'', CNone, CNum (Fin 50000), CNum (Fin (2667 / 1000))]]) \<and>
   CNum (Fin (2667 / 1000)) \<noteq> CNum (Fin (8 / 3))"
proof -
  have g: "np_div (np_sub (snd (last series0)) (snd (hd series0))) (np_std (map snd series0))
             = Fin (8 / 3)"
    using np_std_Fin [of "[10000, 20000, 20000, 50000]"]
    by (simp add: series0_def population_std_dev0)
  have r: "py_round (Fin 13000) 2 = Fin 13000" "py_round (Fin 11500) 2 = Fin 11500"
    "py_round (Fin 50000) 2 = Fin 50000" "py_round (Fin (3 / 2)) 3 = Fin (3 / 2)"
    "py_round (Fin 1) 3 = Fin 1"
    by (simp_all add: round_half_even_def Let_def)
  have t: "plot_sharpe_table perf0 (Fin (8 / 3)) series0 =
     Inr ([''Strategy'', ''MDD'', ''fAPV'', ''Sharpe''],
          [[CStr ''DRL'', CNone, CNum (Fin 13000), CNum (Fin (3 / 2))],
           [CStr ''Equal weight'', CNone, CNum (Fin 11500), CNum (Fin 1)],
           [CStr ''Long Bitcoin'', CNone, CNum (Fin 50000), CNum (Fin (2667 / 1000))]])"
    unfolding plot_sharpe_table_def py_last_def
    by (simp add: perf0_def series0_def r py_round_8_3 del: py_round.simps)
  show ?thesis
    using get_btc_price_data_for_period0 g t by simp
qed

text \<open>
  C9, amended. The value \<open>_get_btc_price_data_for_period\<close> returns as the Sharpe of the
  baseline is the last element of the baseline series minus its first element, divided by
  the population standard deviation of the whole series (in real arithmetic when no close
  price is zero and the series is not constant): a ratio of the total gain to the
  volatility. The \<open>Sharpe\<close> cell of the \<open>Long Bitcoin\<close> row of the table holds this
  value rounded to three decimals.
\<close>

theorem btc_sharpe_reported:
  assumes "read_csv pc w (btc_price_fp cfg) = Inr rows"
    and "2 \<le> length (test_segment rows st)"
    and "p_list tp \<noteq> []" and "p_list_eq tp \<noteq> []"
  shows "\<exists>series sharpe columns data.
     get_btc_price_data_for_period pc w cfg st = Inr (series, sharpe) \<and>
     sharpe = np_div (np_sub (snd (last series)) (snd (hd series))) (np_std (map snd series)) \<and>
     (list_all (\<lambda>c. c \<noteq> 0) (test_segment rows st) \<and>
      population_std_dev (buy_and_hold (cfg_portfolio_value cfg) (test_segment rows st)) \<noteq> 0
      \<longrightarrow> sharpe =
            Fin ((last (buy_and_hold (cfg_portfolio_value cfg) (test_segment rows st))
                  - hd (buy_and_hold (cfg_portfolio_value cfg) (test_segment rows st)))
                 / population_std_dev
                     (buy_and_hold (cfg_portfolio_value cfg) (test_segment rows st)))) \<and>
     plot_sharpe_table tp sharpe series = Inr (columns, data) \<and>
     table_cell columns data ''Long Bitcoin'' ''Sharpe'' = Some (CNum (py_round sharpe 3))"
proof -
  let ?seg = "test_segment rows st"
  let ?vals = "baseline_values (cfg_portfolio_value cfg) ?seg"
  let ?idx = "map (\<lambda>(date, close). date + 7200) (test_period_rows rows st)"
  let ?series = "zip ?idx ?vals"
  let ?bh = "buy_and_hold (cfg_portfolio_value cfg) ?seg"
  have run: "get_btc_price_data_for_period pc w cfg st =
               Inr (?series, gain_over_volatility ?vals)"
    by (rule get_btc_price_data_for_period_eq [OF assms(1,2)])
  have lv: "length ?vals = length ?idx"
    by (simp add: length_baseline_values test_segment_def)
  have vals: "map snd ?series = ?vals"
    using lv by simp
  have ls: "length ?series = length ?seg"
    using lv by (simp add: length_baseline_values)
  have "length ?series \<noteq> 0"
    unfolding ls using assms(2) by arith
  then have ne: "?series \<noteq> []"
    by (metis list.size(3))
  have l: "snd (last ?series) = last ?vals"
    using ne vals by (metis last_map)
  have h: "snd (hd ?series) = hd ?vals"
    using ne vals by (metis hd_map)
  have ratio: "gain_over_volatility ?vals =
      np_div (np_sub (snd (last ?series)) (snd (hd ?series))) (np_std (map snd ?series))"
    unfolding l h vals by (simp add: gain_over_volatility_def)
  have fin: "list_all (\<lambda>c. c \<noteq> 0) ?seg \<and> population_std_dev ?bh \<noteq> 0
      \<longrightarrow> gain_over_volatility ?vals = Fin ((last ?bh - hd ?bh) / population_std_dev ?bh)"
  proof
    assume a: "list_all (\<lambda>c. c \<noteq> 0) ?seg \<and> population_std_dev ?bh \<noteq> 0"
    have "?bh \<noteq> []"
      using two_le_length_nonempty [OF assms(2)] by (simp add: buy_and_hold_def)
    then show "gain_over_volatility ?vals = Fin ((last ?bh - hd ?bh) / population_std_dev ?bh)"
      using a baseline_values_closed [of ?seg "cfg_portfolio_value cfg"]
        gain_over_volatility_Fin [of ?bh]
      by simp
  qed
  have tbl: "plot_sharpe_table tp (gain_over_volatility ?vals) ?series =
     Inr ([''Strategy'', ''MDD'', ''fAPV'', ''Sharpe''],
          [[CStr ''DRL'', CNone, CNum (py_round (last (p_list tp)) 2),
            CNum (py_round (sr_p_list (sharpe_ratios tp)) 3)],
           [CStr ''Equal weight'', CNone, CNum (py_round (last (p_list_eq tp)) 2),
            CNum (py_round (sr_p_list_eq (sharpe_ratios tp)) 3)],
           [CStr ''Long Bitcoin'', CNone, CNum (py_round (last (map snd ?series)) 2),
            CNum (py_round (gain_over_volatility ?vals) 3)]])"
    by (rule plot_sharpe_table_ok [OF assms(3,4) ne])
  show ?thesis
    using run ratio fin tbl long_bitcoin_sharpe_cell by blast
qed

theorem btc_sharpe_reported_witness:
  "read_csv parse_csv0 world_btc (btc_price_fp cfg0) = Inr rows0 \<and>
   test_segment rows0 steps0 = [1, 2, 2, 5] \<and>
   buy_and_hold (cfg_portfolio_value cfg0) [1, 2, 2, 5] = [10000, 20000, 20000, 50000] \<and>
   population_std_dev [10000, 20000, 20000, 50000] = 15000 \<and>
   (\<exists>series columns data.
      get_btc_price_data_for_period parse_csv0 world_btc cfg0 steps0
        = Inr (series, Fin (8 / 3)) \<and>
      plot_sharpe_table perf0 (Fin (8 / 3)) series = Inr (columns, data) \<and>
      table_cell columns data ''Long Bitcoin'' ''Sharpe'' = Some (CNum (Fin (2667 / 1000))))"
proof -
  have len: "2 \<le> length (test_segment rows0 steps0)"
    by (simp add: test_segment0)
  have p: "p_list perf0 \<noteq> []" "p_list_eq perf0 \<noteq> []"
    by (simp_all add: perf0_def)
  have bh: "buy_and_hold (cfg_portfolio_value cfg0) [1, 2, 2, 5] = [10000, 20000, 20000, 50000]"
    by (simp add: cfg0_def buy_and_hold0)
  from btc_sharpe_reported [OF read_csv_world_btc len p]
  obtain series sharpe columns data where
    run: "get_btc_price_data_for_period parse_csv0 world_btc cfg0 steps0 = Inr (series, sharpe)"
    and tbl: "plot_sharpe_table perf0 sharpe series = Inr (columns, data)"
    and cell: "table_cell columns data ''Long Bitcoin'' ''Sharpe''
                 = Some (CNum (py_round sharpe 3))"
    and fin: "list_all (\<lambda>c. c \<noteq> 0) (test_segment rows0 steps0) \<and>
      population_std_dev (buy_and_hold (cfg_portfolio_value cfg0) (test_segment rows0 steps0))
        \<noteq> 0
      \<longrightarrow> sharpe =
            Fin ((last (buy_and_hold (cfg_portfolio_value cfg0) (test_segment rows0 steps0))
                  - hd (buy_and_hold (cfg_portfolio_value cfg0) (test_segment rows0 steps0)))
                 / population_std_dev
                     (buy_and_hold (cfg_portfolio_value cfg0) (test_segment rows0 steps0)))"
    by blast
  have sharpe: "sharpe = Fin (8 / 3)"
    using fin by (simp add: test_segment0 bh population_std_dev0)
  show ?thesis
    using read_csv_world_btc test_segment0 bh population_std_dev0 run tbl cell
    unfolding sharpe py_round_8_3 by blast
qed

section \<open>Files read and written, and errors\<close>

lemma json_path_eq: "json_path s = ''train_jsons/train_history_'' @ s @ ''.json''"
  by (simp add: json_path_def os_path_join_def JSON_OUTPUT_DIR_def)

lemma histogram_path_eq: "histogram_path s = ''train_histograms/histogram_'' @ s @ ''.png''"
  by (simp add: histogram_path_def os_path_join_def HISTOGRAM_OUTPUT_DIR_def)

lemma train_results_path_eq:
  "train_results_path now cfg = ''train_graphs/train_results_'' @ output_fn now cfg @ ''.png''"
  by (simp add: train_results_path_def os_path_join_def OUTPUT_DIR_def)

lemma filter_history_loop_all_removed:
  "list_all (\<lambda>(k, r). \<not> weights_within_bounds r) h \<Longrightarrow> filter_history_loop acc h = acc"
proof (induction h)
  case Nil
  then show ?case by simp
next
  case (Cons p h)
  obtain k r where p: "p = (k, r)" by (cases p)
  from Cons.prems p have r: "\<not> weights_within_bounds r"
    and rest: "list_all (\<lambda>(k, r). \<not> weights_within_bounds r) h"
    by simp_all
  show ?case
    unfolding p filter_step_drop [OF r] by (rule Cons.IH [OF rest])
qed

lemma make_train_histograms_missing:
  "input_files w (json_path s) = None \<Longrightarrow>
   make_train_histograms jl w s = (Inl FileNotFoundError, w)"
  by (simp add: make_train_histograms_def open_read_def)

lemma make_train_histograms_unparsable:
  "input_files w (json_path s) = Some txt \<Longrightarrow> jl txt = Inl e \<Longrightarrow>
   make_train_histograms jl w s = (Inl e, w)"
  by (simp add: make_train_histograms_def open_read_def)

lemma make_train_histograms_parsed:
  "input_files w (json_path s) = Some txt \<Longrightarrow> jl txt = Inr h \<Longrightarrow>
   make_train_histograms jl w s =
     (case aggregate_backtest_stats (filter_history_dict h) of
        Inl e \<Rightarrow> (Inl e, w)
      | Inr bs \<Rightarrow>
          (Inr (),
           savefig w (histogram_path s)
             (HistogramFigure (histogram_figure_of s (filter_history_dict h) bs))))"
  by (simp add: make_train_histograms_def open_read_def Let_def)

lemma make_train_histograms_success:
  assumes "make_train_histograms jl w s = (Inr (), w')"
  shows "\<exists>txt h bs. input_files w (json_path s) = Some txt \<and> jl txt = Inr h \<and>
           aggregate_backtest_stats (filter_history_dict h) = Inr bs \<and>
           w' = savefig w (histogram_path s)
                  (HistogramFigure (histogram_figure_of s (filter_history_dict h) bs))"
  using assms
  by (auto simp: make_train_histograms_def open_read_def Let_def
      split: option.splits sum.splits)

lemma make_train_histograms_reads_json_path:
  "input_files w2 (json_path s) = input_files w (json_path s) \<Longrightarrow>
   fst (make_train_histograms jl w2 s) = fst (make_train_histograms jl w s)"
  by (simp add: make_train_histograms_def open_read_def Let_def
      split: option.splits sum.splits)

lemma get_btc_price_data_for_period_missing:
  "input_files w (btc_price_fp cfg) = None \<Longrightarrow>
   get_btc_price_data_for_period pc w cfg st = Inl FileNotFoundError"
  by (simp add: get_btc_price_data_for_period_def read_csv_def)

lemma get_btc_price_data_for_period_unparsable:
  "input_files w (btc_price_fp cfg) = Some txt \<Longrightarrow> pc txt = Inl e \<Longrightarrow>
   get_btc_price_data_for_period pc w cfg st = Inl e"
  by (simp add: get_btc_price_data_for_period_def read_csv_def)

lemma plot_train_results_btc_error:
  "get_btc_price_data_for_period pc w cfg st = Inl e \<Longrightarrow>
   plot_train_results pc w cfg trp tep al secs st = (Inl e, w)"
  by (simp add: plot_train_results_def)

lemma plot_train_results_success:
  assumes "plot_train_results pc w cfg trp tep al secs st = (Inr (), w')"
  shows "\<exists>fig. w' = savefig w (train_results_path (clock w) cfg) (TrainResultsFigure fig)"
  using assms
  by (auto simp: plot_train_results_def Let_def split: sum.splits prod.splits)

lemma world0_files:
  "input_files world0 (json_path ''a'') = Some ''history3''"
  "input_files world0 (json_path ''b'') = Some ''history_all_removed''"
  "input_files world0 (json_path ''c'') = Some ''{}''"
  "input_files world0 (json_path ''d'') = Some ''{ t1 : ''"
  "input_files world0 (json_path ''e'') = None"
  by (simp_all add: json_path_eq world0_def)

text \<open>
  C8. When every run of the history is removed by the weight filter, which includes the
  empty history, the filtered history is empty, \<open>aggregate_backtest_stats\<close> raises
  IndexError at its first statement, where it takes the first key, and
  \<open>make_train_histograms\<close> on a file holding that history raises the same error and
  writes nothing. Whenever the aggregation returns, its argument was not empty.
\<close>

theorem empty_filtered_history_fails:
  assumes "list_all (\<lambda>(k, r). \<not> weights_within_bounds r) h"
  shows "filter_history_dict h = [] \<and>
         aggregate_backtest_stats (filter_history_dict h) = Inl IndexError \<and>
         (\<forall>jl w s txt. input_files w (json_path s) = Some txt \<and> jl txt = Inr h \<longrightarrow>
            make_train_histograms jl w s = (Inl IndexError, w)) \<and>
         (\<forall>fh res. aggregate_backtest_stats fh = Inr res \<longrightarrow> fh \<noteq> [])"
proof -
  have f: "filter_history_dict h = []"
    using filter_history_loop_all_removed [OF assms] by (simp add: filter_history_dict_def)
  have a: "aggregate_backtest_stats (filter_history_dict h) = Inl IndexError"
    unfolding f by (rule aggregate_backtest_stats_empty)
  have m: "make_train_histograms jl w s = (Inl IndexError, w)"
    if "input_files w (json_path s) = Some t \<and> jl t = Inr h" for jl w s t
    using that make_train_histograms_parsed [of w s t jl h] a by simp
  show ?thesis
    using f a m aggregate_backtest_stats_returns_nonempty by blast
qed

theorem empty_filtered_history_fails_witness:
  "list_all (\<lambda>(k, r). \<not> weights_within_bounds r) history_all_removed \<and>
   filter_history_dict history_all_removed = [] \<and>
   aggregate_backtest_stats (filter_history_dict history_all_removed) = Inl IndexError \<and>
   make_train_histograms json_load0 world0 ''b'' = (Inl IndexError, world0) \<and>
   make_train_histograms json_load0 world0 ''c'' = (Inl IndexError, world0)"
proof -
  have h: "list_all (\<lambda>(k, r). \<not> weights_within_bounds r) history_all_removed"
    by (simp add: history_all_removed_def weights_within_bounds_list_all
        run_negative_def run_huge_def run_ok_def)
  have e: "list_all (\<lambda>(k, r). \<not> weights_within_bounds r) []"
    by simp
  have jb: "json_load0 ''history_all_removed'' = Inr history_all_removed"
    and jc: "json_load0 ''{}'' = Inr []"
    by (simp_all add: json_load0_def)
  show ?thesis
    using empty_filtered_history_fails [OF h] empty_filtered_history_fails [OF e]
      h world0_files(2,3) jb jc
    by blast
qed

text \<open>
  C5. A missing training-history file makes \<open>make_train_histograms\<close> raise the
  FileNotFoundError of \<open>open\<close>, and a file that \<open>json.load\<close> rejects makes it raise the
  exception of \<open>json.load\<close>, unchanged. A missing price file makes
  \<open>_get_btc_price_data_for_period\<close> raise the FileNotFoundError of \<open>read_csv\<close>, and a
  file the parser rejects makes it raise the parser's exception. In each case the files
  are as they were: no output file is written, also not by \<open>plot_train_results\<close>, which
  calls the latter function.
\<close>

theorem read_errors_propagate:
  "(input_files w (json_path s) = None \<longrightarrow>
      make_train_histograms jl w s = (Inl FileNotFoundError, w)) \<and>
   (\<forall>txt e. input_files w (json_path s) = Some txt \<and> jl txt = Inl e \<longrightarrow>
      make_train_histograms jl w s = (Inl e, w)) \<and>
   (input_files w (btc_price_fp cfg) = None \<longrightarrow>
      get_btc_price_data_for_period pc w cfg st = Inl FileNotFoundError \<and>
      plot_train_results pc w cfg trp tep al secs st = (Inl FileNotFoundError, w)) \<and>
   (\<forall>txt e. input_files w (btc_price_fp cfg) = Some txt \<and> pc txt = Inl e \<longrightarrow>
      get_btc_price_data_for_period pc w cfg st = Inl e \<and>
      plot_train_results pc w cfg trp tep al secs st = (Inl e, w))"
  by (auto simp: make_train_histograms_missing make_train_histograms_unparsable
      get_btc_price_data_for_period_missing get_btc_price_data_for_period_unparsable
      plot_train_results_btc_error)

theorem read_errors_propagate_witness:
  "input_files world0 (json_path ''e'') = None \<and>
   make_train_histograms json_load0 world0 ''e'' = (Inl FileNotFoundError, world0) \<and>
   input_files world0 (json_path ''d'') = Some ''{ t1 : '' \<and>
   json_load0 ''{ t1 : '' = Inl JSONDecodeError \<and>
   make_train_histograms json_load0 world0 ''d'' = (Inl JSONDecodeError, world0) \<and>
   input_files world0 (btc_price_fp cfg0) = None \<and>
   get_btc_price_data_for_period parse_csv0 world0 cfg0 steps0 = Inl FileNotFoundError \<and>
   plot_train_results parse_csv0 world0 cfg0 train_perf0 perf0 [''ETH'', ''XRP''] 12 steps0
     = (Inl FileNotFoundError, world0)"
proof -
  have j: "json_load0 ''{ t1 : '' = Inl JSONDecodeError"
    by (simp add: json_load0_def)
  have c: "input_files world0 (btc_price_fp cfg0) = None"
    by (simp add: btc_price_fp_cfg0 world0_def)
  show ?thesis
    using read_errors_propagate [of world0 "''e''" json_load0 cfg0 parse_csv0 steps0
        train_perf0 perf0 "[''ETH'', ''XRP'']" 12]
      read_errors_propagate [of world0 "''d''" json_load0 cfg0 parse_csv0 steps0
        train_perf0 perf0 "[''ETH'', ''XRP'']" 12]
      world0_files(4,5) j c
    by blast
qed

section \<open>The fixed paths\<close>

lemma aggregate_backtest_stats_ok:
  assumes "fh \<noteq> []" and "list_all (\<lambda>(k, r). initial_weights r \<noteq> []) fh"
  shows "\<exists>res. aggregate_backtest_stats fh = Inr res"
proof -
  obtain k0 r0 rest where fh: "fh = (k0, r0) # rest"
    using assms(1) by (cases fh) auto
  show ?thesis
    unfolding aggregate_backtest_stats_def fh list.case prod.case
    using aggregate_loop_ok [OF assms(2)] unfolding fh by blast
qed

lemma make_train_histograms_a: "fst (make_train_histograms json_load0 world0 ''a'') = Inr ()"
proof -
  have j: "json_load0 ''history3'' = Inr history3"
    by (simp add: json_load0_def)
  have "list_all (\<lambda>(k, r). initial_weights r \<noteq> []) [(''t2'', run_ok)]"
    by (simp add: run_ok_def)
  then obtain res where "aggregate_backtest_stats (filter_history_dict history3) = Inr res"
    using aggregate_backtest_stats_ok [of "[(''t2'', run_ok)]"] history3_filtered by auto
  then show ?thesis
    using make_train_histograms_parsed
        [of world0 "''a''" "''history3''" json_load0 history3, OF world0_files(1) j]
    by simp
qed

lemma plot_train_results_btc:
  "fst (plot_train_results parse_csv0 world_btc cfg0 train_perf0 perf0 [''ETH'', ''XRP''] 12
          steps0) = Inr ()"
proof -
  have p: "plot_portfolio_value_progress_test perf0 series0 =
             Inr [(''Agent'', zip (map fst series0) (p_list perf0)),
                  (''Equally weighted'', zip (map fst series0) (p_list_eq perf0)),
                  (''BTC only'', series0)]"
    by (simp add: plot_portfolio_value_progress_test_def pd_Series_def perf0_def series0_def)
  have ne: "p_list perf0 \<noteq> []" "p_list_eq perf0 \<noteq> []" "series0 \<noteq> []"
    by (simp_all add: perf0_def series0_def)
  have r: "[0 ..< length [''ETH'', ''XRP''] + 1] = [0, 1, 2]"
    by (simp add: upt_conv_Cons)
  have e: "\<exists>ev. plot_weight_evolution [''ETH'', ''XRP''] (w_list perf0) series0 = Inr ev"
    unfolding plot_weight_evolution_def r
    by (simp add: np_column_from1_def pd_Series_def CASH_NAME_def perf0_def series0_def)
  then obtain ev where ev: "plot_weight_evolution [''ETH'', ''XRP''] (w_list perf0) series0 = Inr ev"
    by blast
  show ?thesis
    unfolding plot_train_results_def Let_def get_btc_price_data_for_period0 sum.case prod.case p
      plot_sharpe_table_ok [OF ne] ev
    by simp
qed

text \<open>
  C6. \<open>make_train_histograms\<close> reads the training history of a session from
  \<open>train_jsons/train_history_<session_name>.json\<close> and from no other file, as a JSON
  object keyed by run timestamp, and when it succeeds it has written exactly one file, its
  figure, as a PNG to \<open>train_histograms/histogram_<session_name>.png\<close>. When
  \<open>plot_train_results\<close> succeeds it has written exactly one file, its figure, as a PNG to
  \<open>train_graphs/train_results_<name>.png\<close>, where \<open><name>\<close> is the session name if
  the configurations give one, else \<open>test\<close> in test mode, else the current timestamp.
\<close>

theorem report_paths:
  "json_path s = ''train_jsons/train_history_'' @ s @ ''.json'' \<and>
   histogram_path s = ''train_histograms/histogram_'' @ s @ ''.png'' \<and>
   (\<forall>w2. input_files w2 (json_path s) = input_files w (json_path s) \<longrightarrow>
      fst (make_train_histograms jl w2 s) = fst (make_train_histograms jl w s)) \<and>
   (\<forall>w'. make_train_histograms jl w s = (Inr (), w') \<longrightarrow>
      (\<exists>content h fig. input_files w (json_path s) = Some content \<and> jl content = Inr h \<and>
         w' = w\<lparr>png_files := (png_files w)(histogram_path s \<mapsto> HistogramFigure fig)\<rparr>)) \<and>
   train_results_path (clock w) cfg =
     ''train_graphs/train_results_''
       @ (case cfg_train_session_name cfg of
            Some name \<Rightarrow> name
          | None \<Rightarrow> if cfg_test_mode cfg = Some True then ''test'' else clock w)
       @ ''.png'' \<and>
   (\<forall>w'. plot_train_results pc w cfg trp tep al secs st = (Inr (), w') \<longrightarrow>
      (\<exists>fig. w' = w\<lparr>png_files :=
                     (png_files w)(train_results_path (clock w) cfg
                                     \<mapsto> TrainResultsFigure fig)\<rparr>))"
proof -
  have reads: "\<forall>w2. input_files w2 (json_path s) = input_files w (json_path s) \<longrightarrow>
      fst (make_train_histograms jl w2 s) = fst (make_train_histograms jl w s)"
    using make_train_histograms_reads_json_path by blast
  have writes: "\<forall>w'. make_train_histograms jl w s = (Inr (), w') \<longrightarrow>
      (\<exists>content h fig. input_files w (json_path s) = Some content \<and> jl content = Inr h \<and>
         w' = w\<lparr>png_files := (png_files w)(histogram_path s \<mapsto> HistogramFigure fig)\<rparr>)"
    using make_train_histograms_success [of jl w s] unfolding savefig_def by blast
  have name: "output_fn (clock w) cfg =
      (case cfg_train_session_name cfg of
         Some name \<Rightarrow> name
       | None \<Rightarrow> if cfg_test_mode cfg = Some True then ''test'' else clock w)"
    by (simp add: output_fn_def split: option.splits bool.splits)
  have plot: "\<forall>w'. plot_train_results pc w cfg trp tep al secs st = (Inr (), w') \<longrightarrow>
      (\<exists>fig. w' = w\<lparr>png_files :=
                     (png_files w)(train_results_path (clock w) cfg
                                     \<mapsto> TrainResultsFigure fig)\<rparr>)"
    using plot_train_results_success [of pc w cfg trp tep al secs st]
    unfolding savefig_def by blast
  show ?thesis
    using json_path_eq histogram_path_eq reads writes plot
    unfolding train_results_path_eq name by blast
qed

theorem report_paths_witness:
  "json_path ''a'' = ''train_jsons/train_history_a.json'' \<and>
   input_files world0 (json_path ''a'') = Some ''history3'' \<and>
   json_load0 ''history3'' = Inr history3 \<and>
   (\<exists>fig. make_train_histograms json_load0 world0 ''a'' =
      (Inr (),
       world0\<lparr>png_files :=
                (png_files world0)(''train_histograms/histogram_a.png''
                                     \<mapsto> HistogramFigure fig)\<rparr>)) \<and>
   (\<exists>fig. plot_train_results parse_csv0 world_btc cfg0 train_perf0 perf0 [''ETH'', ''XRP''] 12
             steps0 =
      (Inr (),
       world_btc\<lparr>png_files :=
                   (png_files world_btc)(''train_graphs/train_results_2020-01-01_12:00:00.png''
                                           \<mapsto> TrainResultsFigure fig)\<rparr>))"
proof -
  note paths = report_paths [of "''a''" world0 json_load0 cfg0 parse_csv0 train_perf0 perf0
      "[''ETH'', ''XRP'']" 12 steps0]
  note plots = report_paths [of "''a''" world_btc json_load0 cfg0 parse_csv0 train_perf0 perf0
      "[''ETH'', ''XRP'']" 12 steps0]
  have j: "json_load0 ''history3'' = Inr history3"
    by (simp add: json_load0_def)
  have jp: "json_path ''a'' = ''train_jsons/train_history_a.json''"
    using paths by simp
  have hp: "histogram_path ''a'' = ''train_histograms/histogram_a.png''"
    using paths by simp
  have tp: "train_results_path (clock world_btc) cfg0 =
              ''train_graphs/train_results_2020-01-01_12:00:00.png''"
    using plots by (simp add: cfg0_def world_btc_def)
  obtain w1 where m: "make_train_histograms json_load0 world0 ''a'' = (Inr (), w1)"
    using make_train_histograms_a by (cases "make_train_histograms json_load0 world0 ''a''") simp
  obtain w2 where p: "plot_train_results parse_csv0 world_btc cfg0 train_perf0 perf0
                        [''ETH'', ''XRP''] 12 steps0 = (Inr (), w2)"
    using plot_train_results_btc
    by (cases "plot_train_results parse_csv0 world_btc cfg0 train_perf0 perf0
                 [''ETH'', ''XRP''] 12 steps0") simp
  have e1: "\<exists>fig. make_train_histograms json_load0 world0 ''a'' =
      (Inr (),
       world0\<lparr>png_files :=
                (png_files world0)(''train_histograms/histogram_a.png''
                                     \<mapsto> HistogramFigure fig)\<rparr>)"
    using paths m unfolding hp by blast
  have e2: "\<exists>fig. plot_train_results parse_csv0 world_btc cfg0 train_perf0 perf0
                    [''ETH'', ''XRP''] 12 steps0 =
      (Inr (),
       world_btc\<lparr>png_files :=
                   (png_files world_btc)(''train_graphs/train_results_2020-01-01_12:00:00.png''
                                           \<mapsto> TrainResultsFigure fig)\<rparr>)"
    using plots p unfolding tp by blast
  show ?thesis
    using jp world0_files(1) j e1 e2 by blast
qed

section \<open>The call of the plot from main\<close>

lemma call_plot_train_results_five:
  "call_plot_train_results pc w [a1, a2, a3, a4, a5] = (Inl TypeError, w)"
  by (simp add: call_plot_train_results_def plot_train_results_params_def)

lemma call_plot_train_results_six:
  "call_plot_train_results pc w
     [PyConfigs c, PyTrainPerf trp, PyTestPerf tep, PyStrList al, PyFloat secs, PySteps st] =
   plot_train_results pc w c trp tep al secs st"
  by (simp add: call_plot_train_results_def plot_train_results_params_def)

text \<open>
  C4 does not hold of the code. When training and testing have completed,
  \<open>main\<close> with \<open>plot_results\<close> true calls \<open>plot_train_results\<close> with five positional
  arguments, while the function has six parameters without defaults: the call raises
  TypeError before the body runs, no plot is rendered and no file is written. With
  \<open>plot_results\<close> false the function is not called and \<open>main\<close> returns.
\<close>

theorem main_plot_call_raises:
  assumes "initialize_trade_envs ext cfg = Inr (envs, al, st)"
    and "train_rl_algorithm ext cfg envs al st = Inr (m, trp)"
    and "test_rl_algorithm ext cfg m envs st = Inr tep"
  shows "main ext w cfg = (if cfg_plot_results cfg then (Inl TypeError, w) else (Inr (), w))"
  using assms by (simp add: main_def call_plot_train_results_five)

theorem main_plot_call_raises_witness:
  "cfg_plot_results cfg0 \<and>
   fst (plot_train_results parse_csv0 world_btc cfg0 train_perf0 perf0 [''ETH'', ''XRP''] 12
          \<lparr>train = 3, test = 1, validation = 1\<rparr>) = Inl UnboundLocalError \<and>
   fst (plot_train_results parse_csv0 world_btc cfg0 train_perf0 perf0 [''ETH'', ''XRP''] 12
          steps0) = Inr () \<and>
   main ext0 world_btc cfg0 = (Inl TypeError, world_btc) \<and>
   main ext0 world_btc (cfg0\<lparr>cfg_plot_results := False\<rparr>) = (Inr (), world_btc)"
proof -
  have i: "initialize_trade_envs ext0 (cfg0\<lparr>cfg_plot_results := b\<rparr>) =
     Inr (\<lparr>policy_network_env = (), equal_weighted_env = (), only_cash = (),
           full_on_one_stocks = [(), ()]\<rparr>,
          [''ETH'', ''XRP''],
          \<lparr>train = 3, test = 1, validation = 1\<rparr>)" for b
    by (simp add: initialize_trade_envs_def get_train_environments_def
        get_train_val_test_steps_def py_int_def ext0_def cfg0_def Let_def numeral_2_eq_2)
  have tr: "train_rl_algorithm ext0 c e a s = Inr ((), train_perf0)" for c e a s
    by (simp add: ext0_def)
  have te: "test_rl_algorithm ext0 c m' e s = Inr perf0" for c m' e s
    by (simp add: ext0_def)
  have c: "cfg0\<lparr>cfg_plot_results := True\<rparr> = cfg0"
    by (simp add: cfg0_def)
  have seg: "test_segment rows0 \<lparr>train = 3, test = 1, validation = 1\<rparr> = [5]"
    by (simp add: test_segment_def test_period_rows_def rows0_def py_slice_from_def)
  have short: "get_btc_price_data_for_period parse_csv0 world_btc cfg0
                 \<lparr>train = 3, test = 1, validation = 1\<rparr> = Inl UnboundLocalError"
    by (rule get_btc_price_data_for_period_short [OF read_csv_world_btc]) (simp add: seg)
  have p: "fst (plot_train_results parse_csv0 world_btc cfg0 train_perf0 perf0
                  [''ETH'', ''XRP''] 12 \<lparr>train = 3, test = 1, validation = 1\<rparr>)
             = Inl UnboundLocalError"
    by (simp add: plot_train_results_btc_error [OF short])
  show ?thesis
    using main_plot_call_raises [OF i [of True] tr te, of world_btc]
      main_plot_call_raises [OF i [of False] tr te, of world_btc]
      p plot_train_results_btc
    by (simp add: c) (simp add: cfg0_def)
qed

section \<open>The statistics tables\<close>

lemma round_half_even_near: "\<bar>of_int (round_half_even z) - z\<bar> \<le> 1 / 2"
proof -
  have "of_int \<lfloor>z\<rfloor> \<le> z" and "z < of_int \<lfloor>z\<rfloor> + 1"
    by linarith+
  then show ?thesis
    by (auto simp: round_half_even_def Let_def)
qed

lemma py_round_is_rounding:
  "\<exists>y. py_round (Fin x) n = Fin y \<and> is_rounding n x y"
proof -
  let ?k = "round_half_even (x * 10 ^ n)"
  let ?y = "of_int ?k / 10 ^ n :: real"
  have p: "(0::real) < 10 ^ n" by simp
  have whole: "?y * 10 ^ n = of_int \<lfloor>?y * 10 ^ n\<rfloor>"
    by simp
  have "\<bar>?y - x\<bar> = \<bar>of_int ?k - x * 10 ^ n\<bar> / 10 ^ n"
    using p by (simp add: field_simps abs_divide)
  also have "\<dots> \<le> (1 / 2) / 10 ^ n"
    by (rule divide_right_mono [OF round_half_even_near]) simp
  finally have near: "\<bar>?y - x\<bar> \<le> 1 / (2 * 10 ^ n)"
    by simp
  show ?thesis
    using whole near unfolding is_rounding_def by (intro exI [of _ ?y]) simp
qed

lemma rounded_mean: "rounded_stat arithmetic_mean xs (CNum (py_round (np_mean xs) 4))"
proof (cases "xs = [] \<or> \<not> list_all is_fin xs")
  case True
  then show ?thesis by (auto simp: np_mean_def)
next
  case False
  then have m: "np_mean xs = Fin (arithmetic_mean (map the_fin xs))"
    by (simp add: np_mean_def arithmetic_mean_def)
  obtain y where "py_round (Fin (arithmetic_mean (map the_fin xs))) 4 = Fin y"
    and "is_rounding 4 (arithmetic_mean (map the_fin xs)) y"
    using py_round_is_rounding by blast
  then show ?thesis
    using False unfolding m by (simp del: py_round.simps)
qed

lemma rounded_std: "rounded_stat population_std_dev xs (CNum (py_round (np_std xs) 4))"
proof (cases "xs = [] \<or> \<not> list_all is_fin xs")
  case True
  then show ?thesis by (auto simp: np_std_def)
next
  case False
  then have m: "np_std xs = Fin (population_std_dev (map the_fin xs))"
    by (simp add: np_std_def population_std_dev_def arithmetic_mean_def Let_def comp_def)
  obtain y where "py_round (Fin (population_std_dev (map the_fin xs))) 4 = Fin y"
    and "is_rounding 4 (population_std_dev (map the_fin xs)) y"
    using py_round_is_rounding by blast
  then show ?thesis
    using False unfolding m by (simp del: py_round.simps)
qed

lemma stat_row_intro:
  assumes "table_cell columns rows label ''Average'' = Some (CNum (py_round (np_mean xs) 4))"
    and "table_cell columns rows label ''Stdev'' = Some (CNum (py_round (np_std xs) 4))"
  shows "stat_row columns rows label xs"
  unfolding stat_row_def assms option.case using rounded_mean rounded_std by blast

lemma dynamic_cells:
  "table_cell (dynamic_columns (plot_histogram_metadata_table n s bs))
     (dynamic_data (plot_histogram_metadata_table n s bs)) ''Ptf. value'' ''Average'' =
   Some (CNum (py_round (np_mean (dynamic_pf_values bs)) 4))"
  "table_cell (dynamic_columns (plot_histogram_metadata_table n s bs))
     (dynamic_data (plot_histogram_metadata_table n s bs)) ''Ptf. value'' ''Stdev'' =
   Some (CNum (py_round (np_std (dynamic_pf_values bs)) 4))"
  "table_cell (dynamic_columns (plot_histogram_metadata_table n s bs))
     (dynamic_data (plot_histogram_metadata_table n s bs)) ''Sharpe ratio'' ''Average'' =
   Some (CNum (py_round (np_mean (dynamic_sharpe_ratios bs)) 4))"
  "table_cell (dynamic_columns (plot_histogram_metadata_table n s bs))
     (dynamic_data (plot_histogram_metadata_table n s bs)) ''Sharpe ratio'' ''Stdev'' =
   Some (CNum (py_round (np_std (dynamic_sharpe_ratios bs)) 4))"
  "table_cell (dynamic_columns (plot_histogram_metadata_table n s bs))
     (dynamic_data (plot_histogram_metadata_table n s bs)) ''MDD'' ''Average'' =
   Some (CNum (py_round (np_mean (dynamic_mdds bs)) 4))"
  "table_cell (dynamic_columns (plot_histogram_metadata_table n s bs))
     (dynamic_data (plot_histogram_metadata_table n s bs)) ''MDD'' ''Stdev'' =
   Some (CNum (py_round (np_std (dynamic_mdds bs)) 4))"
  "table_cell (dynamic_columns (plot_histogram_metadata_table n s bs))
     (dynamic_data (plot_histogram_metadata_table n s bs)) ''Average of weights'' ''Average'' =
   Some (CNum (py_round (np_mean (crypto_weight_averages bs)) 4))"
  "table_cell (dynamic_columns (plot_histogram_metadata_table n s bs))
     (dynamic_data (plot_histogram_metadata_table n s bs)) ''Average of weights'' ''Stdev'' =
   Some (CNum (py_round (np_std (crypto_weight_averages bs)) 4))"
  "table_cell (dynamic_columns (plot_histogram_metadata_table n s bs))
     (dynamic_data (plot_histogram_metadata_table n s bs)) ''Stdev of weights'' ''Average'' =
   Some (CNum (py_round (np_mean (crypto_weight_std_devs bs)) 4))"
  "table_cell (dynamic_columns (plot_histogram_metadata_table n s bs))
     (dynamic_data (plot_histogram_metadata_table n s bs)) ''Stdev of weights'' ''Stdev'' =
   Some (CNum (py_round (np_std (crypto_weight_std_devs bs)) 4))"
  "table_cell (dynamic_columns (plot_histogram_metadata_table n s bs))
     (dynamic_data (plot_histogram_metadata_table n s bs)) ''Cash weight (BTC)'' ''Average'' =
   Some (CNum (py_round (np_mean (cash_investments bs)) 4))"
  "table_cell (dynamic_columns (plot_histogram_metadata_table n s bs))
     (dynamic_data (plot_histogram_metadata_table n s bs)) ''Cash weight (BTC)'' ''Stdev'' =
   Some (CNum (py_round (np_std (cash_investments bs)) 4))"
  by (simp_all add: plot_histogram_metadata_table_def table_cell_def)

lemma static_cells:
  "table_cell (static_columns (plot_histogram_metadata_table n s bs))
     (static_data (plot_histogram_metadata_table n s bs)) ''Ptf. value'' ''Average'' =
   Some (CNum (py_round (np_mean (static_pf_values bs)) 4))"
  "table_cell (static_columns (plot_histogram_metadata_table n s bs))
     (static_data (plot_histogram_metadata_table n s bs)) ''Ptf. value'' ''Stdev'' =
   Some (CNum (py_round (np_std (static_pf_values bs)) 4))"
  "table_cell (static_columns (plot_histogram_metadata_table n s bs))
     (static_data (plot_histogram_metadata_table n s bs)) ''Sharpe ratio'' ''Average'' =
   Some (CNum (py_round (np_mean (static_sharpe_ratios bs)) 4))"
  "table_cell (static_columns (plot_histogram_metadata_table n s bs))
     (static_data (plot_histogram_metadata_table n s bs)) ''Sharpe ratio'' ''Stdev'' =
   Some (CNum (py_round (np_std (static_sharpe_ratios bs)) 4))"
  "table_cell (static_columns (plot_histogram_metadata_table n s bs))
     (static_data (plot_histogram_metadata_table n s bs)) ''MDD'' ''Average'' =
   Some (CNum (py_round (np_mean (static_mdds bs)) 4))"
  "table_cell (static_columns (plot_histogram_metadata_table n s bs))
     (static_data (plot_histogram_metadata_table n s bs)) ''MDD'' ''Stdev'' =
   Some (CNum (py_round (np_std (static_mdds bs)) 4))"
  "table_cell (static_columns (plot_histogram_metadata_table n s bs))
     (static_data (plot_histogram_metadata_table n s bs)) ''Average of weights'' ''Average'' =
   Some (CNum (py_round (np_mean (crypto_weight_averages bs)) 4))"
  "table_cell (static_columns (plot_histogram_metadata_table n s bs))
     (static_data (plot_histogram_metadata_table n s bs)) ''Average of weights'' ''Stdev'' =
   Some (CNum (py_round (np_std (crypto_weight_averages bs)) 4))"
  "table_cell (static_columns (plot_histogram_metadata_table n s bs))
     (static_data (plot_histogram_metadata_table n s bs)) ''Stdev of weights'' ''Average'' =
   Some (CNum (py_round (np_mean (crypto_weight_std_devs bs)) 4))"
  "table_cell (static_columns (plot_histogram_metadata_table n s bs))
     (static_data (plot_histogram_metadata_table n s bs)) ''Stdev of weights'' ''Stdev'' =
   Some (CNum (py_round (np_std (crypto_weight_std_devs bs)) 4))"
  "table_cell (static_columns (plot_histogram_metadata_table n s bs))
     (static_data (plot_histogram_metadata_table n s bs)) ''Cash weight (BTC)'' ''Average'' =
   Some (CNum (py_round (np_mean (cash_investments bs)) 4))"
  "table_cell (static_columns (plot_histogram_metadata_table n s bs))
     (static_data (plot_histogram_metadata_table n s bs)) ''Cash weight (BTC)'' ''Stdev'' =
   Some (CNum (py_round (np_std (cash_investments bs)) 4))"
  by (simp_all add: plot_histogram_metadata_table_def table_cell_def)

lemma eq_cells:
  "table_cell (eq_columns (plot_histogram_metadata_table n s bs))
     (eq_data (plot_histogram_metadata_table n s bs)) ''Ptf. value'' ''Average'' =
   Some (CNum (py_round (eq_pf_value bs) 4))"
  "table_cell (eq_columns (plot_histogram_metadata_table n s bs))
     (eq_data (plot_histogram_metadata_table n s bs)) ''Sharpe ratio'' ''Average'' =
   Some (CNum (py_round (eq_sharpe_ratio bs) 4))"
  "table_cell (eq_columns (plot_histogram_metadata_table n s bs))
     (eq_data (plot_histogram_metadata_table n s bs)) ''MDD'' ''Average'' =
   Some (CNum (py_round (eq_mdd bs) 4))"
  by (simp_all add: plot_histogram_metadata_table_def table_cell_def)

lemma aggregate_loop_scalars:
  "aggregate_loop acc h = Inr res \<Longrightarrow>
   first_key res = first_key acc \<and> agg_asset_list res = agg_asset_list acc \<and>
   eq_pf_value res = eq_pf_value acc \<and> eq_sharpe_ratio res = eq_sharpe_ratio acc \<and>
   eq_mdd res = eq_mdd acc"
proof (induction h arbitrary: acc)
  case Nil
  then show ?case by simp
next
  case (Cons p h)
  obtain k r where p: "p = (k, r)" by (cases p)
  from Cons.prems p obtain cash crypto where ws: "initial_weights r = cash # crypto"
    by (auto split: list.splits)
  show ?case
    using Cons.prems p ws Cons.IH by (auto split: list.splits)
qed

lemma aggregate_backtest_stats_first_run:
  assumes "aggregate_backtest_stats fh = Inr bs"
  shows "fh \<noteq> [] \<and> first_key bs = fst (hd fh) \<and>
         eq_pf_value bs = pf_value (eq_weight (snd (hd fh))) \<and>
         eq_sharpe_ratio bs = sharpe_ratio (eq_weight (snd (hd fh))) \<and>
         eq_mdd bs = mdd (eq_weight (snd (hd fh)))"
proof -
  have ne: "fh \<noteq> []"
    by (rule aggregate_backtest_stats_returns_nonempty [OF assms])
  then obtain k0 r0 rest where fh: "fh = (k0, r0) # rest"
    by (cases fh) auto
  show ?thesis
    using assms aggregate_loop_scalars [of _ fh bs] unfolding aggregate_backtest_stats_def fh
    by auto
qed

lemma history_eq_filtered: "filter_history_dict history_eq = history_eq"
  by (simp add: filter_history_dict_def history_eq_def run_eq1_def run_eq3_def run_ok_def)

lemma aggregate_history_eq: "aggregate_backtest_stats history_eq = Inr bs_eq"
  by (simp add: aggregate_backtest_stats_def history_eq_def run_eq1_def run_eq3_def
      run_ok_def bs_eq_def np_mean_def np_std_def Let_def)

lemma py_round_one: "py_round (Fin 1) 4 = Fin 1"
  by (simp add: round_half_even_def Let_def)

lemma table_eq_average_cell:
  "table_cell (eq_columns table_eq) (eq_data table_eq) ''Ptf. value'' ''Average''
     = Some (CNum (Fin 1))"
  unfolding table_eq_def eq_cells by (simp add: bs_eq_def py_round_one del: py_round.simps)

text \<open>
  C7, as stated, fails for the table of the equally weighted portfolio. Its column is
  headed \<open>Average\<close>, but its cell holds the value of the first kept run only. For two
  kept runs with the equal-weight portfolio values 1 and 3, whose arithmetic mean is 2,
  the \<open>Average\<close> cell of the \<open>Ptf. value\<close> row holds 1, which is not 2 rounded to 4
  decimal places.
\<close>

theorem metadata_table_eq_counterexample:
  "filter_history_dict history_eq = history_eq \<and>
   history_eq = [(''t1'', run_eq1), (''t2'', run_eq3)] \<and>
   pf_value (eq_weight run_eq1) = Fin 1 \<and>
   pf_value (eq_weight run_eq3) = Fin 3 \<and>
   aggregate_backtest_stats history_eq = Inr bs_eq \<and>
   table_eq = plot_histogram_metadata_table 2 ''run_1'' bs_eq \<and>
   table_cell (eq_columns table_eq) (eq_data table_eq) ''Ptf. value'' ''Average''
     = Some (CNum (Fin 1)) \<and>
   arithmetic_mean [1, 3] = 2 \<and>
   \<not> rounded_stat arithmetic_mean [Fin 1, Fin 3] (CNum (Fin 1))"
proof -
  have m: "arithmetic_mean [1, 3] = 2"
    by (simp add: arithmetic_mean_def)
  have "\<not> is_rounding 4 2 1"
    by (simp add: is_rounding_def)
  then have r: "\<not> rounded_stat arithmetic_mean [Fin 1, Fin 3] (CNum (Fin 1))"
    by (simp add: m)
  have v: "pf_value (eq_weight run_eq1) = Fin 1" "pf_value (eq_weight run_eq3) = Fin 3"
    by (simp_all add: run_eq1_def run_eq3_def)
  show ?thesis
    using history_eq_filtered history_eq_def v aggregate_history_eq table_eq_def
      table_eq_average_cell m r
    by blast
qed

text \<open>
  C7, amended. In the dynamic-agent and the static-agent table built by
  \<open>_plot_histogram_metadata_table\<close>, the \<open>Average\<close> cell and the \<open>Stdev\<close> cell of every
  row hold the arithmetic mean and the population standard deviation of the row's
  aggregated list, rounded to 4 decimal places (numpy's non-finite value for an empty list
  or a list with a non-finite element). The rows \<open>Average of weights\<close>,
  \<open>Stdev of weights\<close> and \<open>Cash weight (BTC)\<close> are computed from the same lists in both
  tables and hold the same cells. The \<open>Average\<close> cells of the table of the equally
  weighted portfolio are no means: they hold the portfolio value, the Sharpe ratio and the
  maximum drawdown of the equally weighted portfolio of the first kept run, rounded to 4
  decimal places.
\<close>

theorem metadata_table_statistics:
  assumes "t = plot_histogram_metadata_table n s bs"
  shows "dynamic_row t ''Ptf. value'' (dynamic_pf_values bs) \<and>
         dynamic_row t ''Sharpe ratio'' (dynamic_sharpe_ratios bs) \<and>
         dynamic_row t ''MDD'' (dynamic_mdds bs) \<and>
         dynamic_row t ''Average of weights'' (crypto_weight_averages bs) \<and>
         dynamic_row t ''Stdev of weights'' (crypto_weight_std_devs bs) \<and>
         dynamic_row t ''Cash weight (BTC)'' (cash_investments bs) \<and>
         static_row t ''Ptf. value'' (static_pf_values bs) \<and>
         static_row t ''Sharpe ratio'' (static_sharpe_ratios bs) \<and>
         static_row t ''MDD'' (static_mdds bs) \<and>
         static_row t ''Average of weights'' (crypto_weight_averages bs) \<and>
         static_row t ''Stdev of weights'' (crypto_weight_std_devs bs) \<and>
         static_row t ''Cash weight (BTC)'' (cash_investments bs) \<and>
         shared_row t ''Average of weights'' \<and>
         shared_row t ''Stdev of weights'' \<and>
         shared_row t ''Cash weight (BTC)'' \<and>
         (\<forall>fh. aggregate_backtest_stats fh = Inr bs \<longrightarrow>
            fh \<noteq> [] \<and>
            table_cell (eq_columns t) (eq_data t) ''Ptf. value'' ''Average''
              = Some (CNum (py_round (pf_value (eq_weight (snd (hd fh)))) 4)) \<and>
            table_cell (eq_columns t) (eq_data t) ''Sharpe ratio'' ''Average''
              = Some (CNum (py_round (sharpe_ratio (eq_weight (snd (hd fh)))) 4)) \<and>
            table_cell (eq_columns t) (eq_data t) ''MDD'' ''Average''
              = Some (CNum (py_round (mdd (eq_weight (snd (hd fh)))) 4)))"
proof -
  have rows: "dynamic_row t ''Ptf. value'' (dynamic_pf_values bs) \<and>
         dynamic_row t ''Sharpe ratio'' (dynamic_sharpe_ratios bs) \<and>
         dynamic_row t ''MDD'' (dynamic_mdds bs) \<and>
         dynamic_row t ''Average of weights'' (crypto_weight_averages bs) \<and>
         dynamic_row t ''Stdev of weights'' (crypto_weight_std_devs bs) \<and>
         dynamic_row t ''Cash weight (BTC)'' (cash_investments bs) \<and>
         static_row t ''Ptf. value'' (static_pf_values bs) \<and>
         static_row t ''Sharpe ratio'' (static_sharpe_ratios bs) \<and>
         static_row t ''MDD'' (static_mdds bs) \<and>
         static_row t ''Average of weights'' (crypto_weight_averages bs) \<and>
         static_row t ''Stdev of weights'' (crypto_weight_std_devs bs) \<and>
         static_row t ''Cash weight (BTC)'' (cash_investments bs) \<and>
         shared_row t ''Average of weights'' \<and>
         shared_row t ''Stdev of weights'' \<and>
         shared_row t ''Cash weight (BTC)''"
    unfolding assms dynamic_row_def static_row_def shared_row_def
    by (intro conjI stat_row_intro dynamic_cells static_cells)
      (simp_all only: dynamic_cells static_cells)
  have eq: "fh \<noteq> [] \<and>
            table_cell (eq_columns t) (eq_data t) ''Ptf. value'' ''Average''
              = Some (CNum (py_round (pf_value (eq_weight (snd (hd fh)))) 4)) \<and>
            table_cell (eq_columns t) (eq_data t) ''Sharpe ratio'' ''Average''
              = Some (CNum (py_round (sharpe_ratio (eq_weight (snd (hd fh)))) 4)) \<and>
            table_cell (eq_columns t) (eq_data t) ''MDD'' ''Average''
              = Some (CNum (py_round (mdd (eq_weight (snd (hd fh)))) 4))"
    if a: "aggregate_backtest_stats fh = Inr bs" for fh
    using aggregate_backtest_stats_first_run [OF a] unfolding assms eq_cells by simp
  show ?thesis
    using rows eq by blast
qed

theorem metadata_table_statistics_witness:
  "table0 = plot_histogram_metadata_table 2 ''run_1'' bs0 \<and>
   dynamic_row table0 ''Ptf. value'' [Fin 12, Fin 14] \<and>
   table_cell (dynamic_columns table0) (dynamic_data table0) ''Ptf. value'' ''Average''
     = Some (CNum (Fin 13)) \<and>
   table_cell (dynamic_columns table0) (dynamic_data table0) ''Ptf. value'' ''Stdev''
     = Some (CNum (Fin 1)) \<and>
   static_row table0 ''MDD'' [Fin (1 / 5), Fin (1 / 5)] \<and>
   table_cell (static_columns table0) (static_data table0) ''MDD'' ''Average''
     = Some (CNum (Fin (1 / 5))) \<and>
   table_cell (static_columns table0) (static_data table0) ''MDD'' ''Stdev''
     = Some (CNum (Fin 0)) \<and>
   dynamic_row table0 ''Average of weights'' [Fin (9 / 20), NonFinite] \<and>
   table_cell (dynamic_columns table0) (dynamic_data table0) ''Average of weights'' ''Average''
     = Some (CNum NonFinite) \<and>
   shared_row table0 ''Average of weights'' \<and>
   shared_row table0 ''Stdev of weights'' \<and>
   shared_row table0 ''Cash weight (BTC)'' \<and>
   table_eq = plot_histogram_metadata_table 2 ''run_1'' bs_eq \<and>
   aggregate_backtest_stats history_eq = Inr bs_eq \<and>
   snd (hd history_eq) = run_eq1 \<and>
   table_cell (eq_columns table_eq) (eq_data table_eq) ''Ptf. value'' ''Average''
     = Some (CNum (py_round (pf_value (eq_weight run_eq1)) 4)) \<and>
   py_round (pf_value (eq_weight run_eq1)) 4 = Fin 1"
proof -
  note t = metadata_table_statistics [OF table0_def]
  note e = metadata_table_statistics [OF table_eq_def]
  have lists: "dynamic_pf_values bs0 = [Fin 12, Fin 14]"
    "static_mdds bs0 = [Fin (1 / 5), Fin (1 / 5)]"
    "crypto_weight_averages bs0 = [Fin (9 / 20), NonFinite]"
    by (simp_all add: bs0_def)
  have stats: "np_mean [Fin 12, Fin 14] = Fin 13" "np_std [Fin 12, Fin 14] = Fin 1"
    "np_mean [Fin (1 / 5), Fin (1 / 5)] = Fin (1 / 5)"
    "np_std [Fin (1 / 5), Fin (1 / 5)] = Fin 0"
    "np_mean [Fin (9 / 20), NonFinite] = NonFinite"
    by (simp_all add: np_mean_def np_std_def Let_def)
  have rounds: "py_round (Fin 13) 4 = Fin 13" "py_round (Fin 1) 4 = Fin 1"
    "py_round (Fin (1 / 5)) 4 = Fin (1 / 5)" "py_round (Fin 0) 4 = Fin 0"
    by (simp_all add: round_half_even_def Let_def)
  have cells:
    "table_cell (dynamic_columns table0) (dynamic_data table0) ''Ptf. value'' ''Average''
       = Some (CNum (Fin 13))"
    "table_cell (dynamic_columns table0) (dynamic_data table0) ''Ptf. value'' ''Stdev''
       = Some (CNum (Fin 1))"
    "table_cell (static_columns table0) (static_data table0) ''MDD'' ''Average''
       = Some (CNum (Fin (1 / 5)))"
    "table_cell (static_columns table0) (static_data table0) ''MDD'' ''Stdev''
       = Some (CNum (Fin 0))"
    "table_cell (dynamic_columns table0) (dynamic_data table0) ''Average of weights''
       ''Average'' = Some (CNum NonFinite)"
    unfolding table0_def dynamic_cells static_cells lists stats rounds
    by simp_all
  have first: "snd (hd history_eq) = run_eq1"
    by (simp add: history_eq_def)
  have one: "py_round (pf_value (eq_weight run_eq1)) 4 = Fin 1"
    by (simp add: run_eq1_def py_round_one del: py_round.simps)
  have eqc: "table_cell (eq_columns table_eq) (eq_data table_eq) ''Ptf. value'' ''Average''
     = Some (CNum (py_round (pf_value (eq_weight run_eq1)) 4))"
    using e aggregate_history_eq unfolding first [symmetric] by blast
  have part0: "dynamic_row table0 ''Ptf. value'' [Fin 12, Fin 14] \<and>
      static_row table0 ''MDD'' [Fin (1 / 5), Fin (1 / 5)] \<and>
      dynamic_row table0 ''Average of weights'' [Fin (9 / 20), NonFinite] \<and>
      shared_row table0 ''Average of weights'' \<and>
      shared_row table0 ''Stdev of weights'' \<and>
      shared_row table0 ''Cash weight (BTC)''"
    using t unfolding lists by blast
  show ?thesis
    using part0 cells table0_def table_eq_def aggregate_history_eq first eqc one by blast
qed

end
